theory Spec2Isabelle
  imports Complex_Main
begin

section \<open>Data model (src/types.ts)\<close>

text \<open>
  A JavaScript \<^verbatim>\<open>number\<close> is modelled as a \<^typ>\<open>real\<close>: the arithmetic of the
  filters is exact here, and rounding, NaN and the infinities of float64 have no
  counterpart. Where the JavaScript value would leave the reals (a division by zero,
  an \<^verbatim>\<open>undefined\<close> operand) the model returns an error value instead.

  \<^verbatim>\<open>interface Coordinates { x: number; y: number }\<close>
\<close>

record Coordinates =
  coord_x :: real
  coord_y :: real

text \<open>\<^verbatim>\<open>interface LowPassFilterInstance { previousEstimate: Coordinates | null }\<close>\<close>

record LowPassFilterInstance =
  previousEstimate :: "Coordinates option"

section \<open>Errors and loops\<close>

text \<open>
  The two errors the source throws itself are \<open>IncompatibleDimensions\<close>
  (\<^verbatim>\<open>"Matrix dimensions are not compatible for multiplication."\<close>) and \<open>SingularMatrix\<close>
  (\<^verbatim>\<open>"Matrix is singular and cannot be inverted."\<close>). \<open>TypeError\<close> is what JavaScript
  throws when an index or \<^verbatim>\<open>.length\<close> of \<^verbatim>\<open>undefined\<close> is read, that is, when a row
  that does not exist is dereferenced. \<open>NotANumber\<close> marks the points where JavaScript
  does not throw but computes with \<^verbatim>\<open>undefined\<close>, NaN or an infinity (an element read
  past the end of a row, a division by zero): the real-valued model stops there.
\<close>

datatype error = IncompatibleDimensions | SingularMatrix | TypeError | NotANumber

definition bindR :: "error + 'a \<Rightarrow> ('a \<Rightarrow> error + 'b) \<Rightarrow> error + 'b" where
  "bindR r f = (case r of Inl e \<Rightarrow> Inl e | Inr v \<Rightarrow> f v)"

text \<open>\<^verbatim>\<open>for (let i = 0; i < n; i++) body\<close> is \<open>for_each [0..<n] body\<close> on the loop's state.\<close>

fun for_each :: "'i list \<Rightarrow> ('i \<Rightarrow> 's \<Rightarrow> error + 's) \<Rightarrow> 's \<Rightarrow> error + 's" where
  "for_each [] body s = Inr s"
| "for_each (i # is) body s = bindR (body i s) (for_each is body)"

text \<open>\<^verbatim>\<open>xs.map(f)\<close> where \<open>f\<close> may fail: the first failure ends the map.\<close>

fun map_each :: "('a \<Rightarrow> error + 'b) \<Rightarrow> 'a list \<Rightarrow> error + 'b list" where
  "map_each f [] = Inr []"
| "map_each f (x # xs) = bindR (f x) (\<lambda>y. bindR (map_each f xs) (\<lambda>ys. Inr (y # ys)))"

text \<open>The division of two numbers; JavaScript yields NaN or an infinity on a zero divisor.\<close>

definition js_div :: "real \<Rightarrow> real \<Rightarrow> error + real" where
  "js_div a b = (if b = 0 then Inl NotANumber else Inr (a / b))"

section \<open>Matrix algebra (src/utils/matrix.ts; the same text in filterService.ts, lines 4-61)\<close>

text \<open>\<^verbatim>\<open>type Matrix = number[][]\<close>: a list of rows.\<close>

type_synonym Matrix = "real list list"

text \<open>
  The read \<^verbatim>\<open>M[i][j]\<close>. A missing row makes \<^verbatim>\<open>M[i]\<close> undefined and the element read
  throws; a missing element of an existing row is \<^verbatim>\<open>undefined\<close>.
\<close>

definition elem_at :: "'a list list \<Rightarrow> nat \<Rightarrow> nat \<Rightarrow> error + 'a" where
  "elem_at M i j =
     (if i < length M
      then (if j < length (M ! i) then Inr (M ! i ! j) else Inl NotANumber)
      else Inl TypeError)"

text \<open>
  The spec's invariant of a Matrix: at least one row, rows of one and the same non-zero
  length.
\<close>

definition rows :: "'a list list \<Rightarrow> nat" where
  "rows M = length M"

definition cols :: "'a list list \<Rightarrow> nat" where
  "cols M = length (M ! 0)"

definition well_formed :: "'a list list \<Rightarrow> bool" where
  "well_formed M = (M \<noteq> [] \<and> M ! 0 \<noteq> [] \<and> list_all (\<lambda>row. length row = length (M ! 0)) M)"

text \<open>
  \<^verbatim>\<open>A.map((row, i) => row.map((val, j) => val + B[i][j]))\<close>: the shape is that of \<open>A\<close>;
  \<open>B\<close> is read at the indices of \<open>A\<close>.
\<close>

definition mat_add :: "Matrix \<Rightarrow> Matrix \<Rightarrow> error + Matrix" where
  "mat_add A B =
     map_each (\<lambda>i. map_each (\<lambda>j. bindR (elem_at B i j) (\<lambda>b. Inr (A ! i ! j + b)))
                              [0..<length (A ! i)])
              [0..<length A]"

definition mat_sub :: "Matrix \<Rightarrow> Matrix \<Rightarrow> error + Matrix" where
  "mat_sub A B =
     map_each (\<lambda>i. map_each (\<lambda>j. bindR (elem_at B i j) (\<lambda>b. Inr (A ! i ! j - b)))
                              [0..<length (A ! i)])
              [0..<length A]"

text \<open>
  \<^verbatim>\<open>mat_mul\<close>: the dimension check reads \<^verbatim>\<open>A[0].length\<close>, the allocation of \<open>C\<close> reads
  \<^verbatim>\<open>B[0].length\<close>; then three nested loops accumulate into \<open>C[i][j]\<close>, which starts
  at 0. The writes to \<open>C\<close> are within the rows just allocated. No law of arithmetic is
  assumed of the entries, so the order of the additions is the order of the loop.
\<close>

definition mat_mul ::
  "('a::{zero,plus,times}) list list \<Rightarrow> 'a list list \<Rightarrow> error + 'a list list" where
  "mat_mul A B =
     (if A = [] then Inl TypeError
      else if length (A ! 0) \<noteq> length B then Inl IncompatibleDimensions
      else if B = [] then Inl TypeError
      else for_each [0..<length A] (\<lambda>i.
             for_each [0..<length (B ! 0)] (\<lambda>j.
               for_each [0..<length (A ! 0)] (\<lambda>k C.
                 bindR (elem_at A i k) (\<lambda>a.
                 bindR (elem_at B k j) (\<lambda>b.
                 Inr (C[i := (C ! i)[j := C ! i ! j + a * b]]))))))
             (replicate (length A) (replicate (length (B ! 0)) 0)))"

text \<open>\<^verbatim>\<open>A[0].map((_, colIndex) => A.map(row => row[colIndex]))\<close>\<close>

definition mat_transpose :: "Matrix \<Rightarrow> error + Matrix" where
  "mat_transpose A =
     (if A = [] then Inl TypeError
      else map_each (\<lambda>colIndex.
             map_each (\<lambda>row. if colIndex < length row then Inr (row ! colIndex)
                              else Inl NotANumber) A)
           [0..<length (A ! 0)])"

definition mat_scalar_mul :: "Matrix \<Rightarrow> real \<Rightarrow> Matrix" where
  "mat_scalar_mul A s = map (\<lambda>row. map (\<lambda>val. val * s) row) A"

definition mat_identity :: "nat \<Rightarrow> Matrix" where
  "mat_identity size' =
     foldl (\<lambda>I i. I[i := (I ! i)[i := 1]]) (replicate size' (replicate size' 0)) [0..<size']"

text \<open>
  \<^verbatim>\<open>mat_inv_2x2\<close>: the determinant is compared with 0 exactly; the entries are read
  in the order of the source.
\<close>

definition mat_inv_2x2 :: "Matrix \<Rightarrow> error + Matrix" where
  "mat_inv_2x2 A =
     bindR (elem_at A 0 0) (\<lambda>a00. bindR (elem_at A 1 1) (\<lambda>a11.
     bindR (elem_at A 0 1) (\<lambda>a01. bindR (elem_at A 1 0) (\<lambda>a10.
       let det = a00 * a11 - a01 * a10 in
       if det = 0 then Inl SingularMatrix
       else bindR (js_div 1 det) (\<lambda>invDet.
              Inr [[a11 * invDet, - a01 * invDet],
                   [- a10 * invDet, a00 * invDet]])))))"

text \<open>
  \<^verbatim>\<open>mat_cholesky\<close>: \<open>L\<close> is allocated \<open>n \<times> n\<close> with \<open>n = A.length\<close> and is read and
  written at \<open>k < j \<le> i < n\<close> only; \<open>A\<close> is the caller's and its reads are checked.
  \<open>cholesky_step\<close> is the body of the loop over \<open>j\<close> (lines 78-88); \<^verbatim>\<open>continue\<close>
  leaves \<open>L\<close> as it is.
\<close>

definition cholesky_step :: "Matrix \<Rightarrow> nat \<Rightarrow> nat \<Rightarrow> Matrix \<Rightarrow> error + Matrix" where
  "cholesky_step A i j L =
     (let sum' = foldl (\<lambda>s k. s + L ! i ! k * L ! j ! k) 0 [0..<j] in
      if i = j
      then bindR (elem_at A i i) (\<lambda>aii.
             let val = aii - sum' in
             Inr (L[i := (L ! i)[j := (if val > 0 then sqrt val else 0)]]))
      else if L ! j ! j = 0 then Inr L
      else bindR (js_div 1 (L ! j ! j)) (\<lambda>q.
           bindR (elem_at A i j) (\<lambda>aij.
           Inr (L[i := (L ! i)[j := q * (aij - sum')]]))))"

definition mat_cholesky :: "Matrix \<Rightarrow> error + Matrix" where
  "mat_cholesky A =
     (let n = length A in
      for_each [0..<n] (\<lambda>i. for_each [0..<i + 1] (cholesky_step A i))
        (replicate n (replicate n 0)))"

section \<open>Low-pass filter (src/services/filterService.ts, lines 64-84)\<close>

definition initialLowPassFilter :: LowPassFilterInstance where
  "initialLowPassFilter = \<lparr>previousEstimate = None\<rparr>"

text \<open>
  \<^verbatim>\<open>if (!filter.previousEstimate) return [measurement, { previousEstimate: measurement }]\<close>:
  an object is always truthy, so the test is exactly \<^verbatim>\<open>previousEstimate === null\<close>.
\<close>

definition applyLowPassFilter ::
  "LowPassFilterInstance \<Rightarrow> Coordinates \<Rightarrow> real \<Rightarrow> Coordinates \<times> LowPassFilterInstance" where
  "applyLowPassFilter flt measurement alpha =
     (case previousEstimate flt of
        None \<Rightarrow> (measurement, \<lparr>previousEstimate = Some measurement\<rparr>)
      | Some prev \<Rightarrow>
          (let newEstimate =
                 \<lparr>coord_x = alpha * coord_x measurement + (1 - alpha) * coord_x prev,
                  coord_y = alpha * coord_y measurement + (1 - alpha) * coord_y prev\<rparr>
           in (newEstimate, \<lparr>previousEstimate = Some newEstimate\<rparr>)))"

text \<open>
  The caller's loop (src/App.tsx, \<^verbatim>\<open>updateFilters\<close>; the loops of the tests): each
  measurement is fed to the state returned by the previous call. The estimates are
  collected in call order.
\<close>

fun lowPassRun ::
  "LowPassFilterInstance \<Rightarrow> real \<Rightarrow> Coordinates list \<Rightarrow> Coordinates list \<times> LowPassFilterInstance" where
  "lowPassRun flt alpha [] = ([], flt)"
| "lowPassRun flt alpha (m # ms) =
     (case applyLowPassFilter flt m alpha of
        (est, flt') \<Rightarrow>
          (case lowPassRun flt' alpha ms of (ests, final) \<Rightarrow> (est # ests, final)))"

section \<open>Matrices held by filter states: the store\<close>

text \<open>
  A filter state is a JavaScript object whose matrix fields are references to arrays.
  Destructuring (\<^verbatim>\<open>let { x, P, A, ... } = filter\<close>) and spreading
  (\<^verbatim>\<open>{ ...filter, x: x_new }\<close>) copy the references, not the arrays, so an
  assignment \<^verbatim>\<open>A[0][2] = dt\<close> is seen through every state that holds the same
  reference. The store maps an address to the matrix that lives there; a state record
  holds addresses. Matrices that are only local to a call are plain values. No row is
  shared between two matrices anywhere in the source, so a matrix is one store cell.
  \<open>alloc\<close> takes the next free address; a state built by an \<open>initial...\<close> function
  and the states \<open>apply\<close> returns for it hold allocated addresses only, and a theorem
  about an arbitrary state says so in its hypotheses (\<open>u_x flt < length h\<close>).
\<close>

type_synonym addr = nat

type_synonym heap = "Matrix list"

definition alloc :: "heap \<Rightarrow> Matrix \<Rightarrow> addr \<times> heap" where
  "alloc h M = (length h, h @ [M])"

text \<open>
  The assignment \<^verbatim>\<open>M[i][j] = v\<close>: a missing row throws, an index at the end of the row
  extends it, an index further out would leave holes.
\<close>

definition put :: "Matrix \<Rightarrow> nat \<Rightarrow> nat \<Rightarrow> real \<Rightarrow> error + Matrix" where
  "put M i j v =
     (if i < length M
      then (if j < length (M ! i) then Inr (M[i := (M ! i)[j := v]])
            else if j = length (M ! i) then Inr (M[i := M ! i @ [v]])
            else Inl NotANumber)
      else Inl TypeError)"

definition store :: "heap \<Rightarrow> addr \<Rightarrow> nat \<Rightarrow> nat \<Rightarrow> real \<Rightarrow> error + heap" where
  "store h a i j v = bindR (put (h ! a) i j v) (\<lambda>M. Inr (h[a := M]))"

text \<open>
  \<^verbatim>\<open>Date.now()\<close> is a parameter of the model, in milliseconds. A timestamp is used
  as a condition (\<^verbatim>\<open>lastTimestamp ? ... : 1\<close>, \<^verbatim>\<open>lastTimestamp && ...\<close>): \<^verbatim>\<open>null\<close> and
  the number 0 are both falsy.
\<close>

definition truthy :: "int option \<Rightarrow> bool" where
  "truthy t = (case t of None \<Rightarrow> False | Some v \<Rightarrow> v \<noteq> 0)"

definition time_step :: "int option \<Rightarrow> int \<Rightarrow> real" where
  "time_step lastTimestamp currentTimestamp =
     (case lastTimestamp of
        None \<Rightarrow> 1
      | Some t \<Rightarrow> if t \<noteq> 0 then real_of_int (currentTimestamp - t) / 15 else 1)"

section \<open>Kalman filter (src/services/filterService.ts, lines 87-131)\<close>

record KalmanFilterInstance =
  k_x :: addr
  k_P :: addr
  k_A :: addr
  k_H :: addr
  k_Q :: addr
  k_R :: addr
  firstRun :: bool
  k_lastTimestamp :: "int option"

definition initialKalmanFilter :: "real \<Rightarrow> real \<Rightarrow> heap \<Rightarrow> KalmanFilterInstance \<times> heap" where
  "initialKalmanFilter q r h =
     (let (x, h1) = alloc h [[0], [0], [0], [0]];
          (P, h2) = alloc h1 (mat_identity 4);
          (A, h3) = alloc h2 [[1, 0, 1, 0], [0, 1, 0, 1], [0, 0, 1, 0], [0, 0, 0, 1]];
          (H, h4) = alloc h3 [[1, 0, 0, 0], [0, 1, 0, 0]];
          (Q, h5) = alloc h4 (mat_scalar_mul (mat_identity 4) q);
          (R, h6) = alloc h5 (mat_scalar_mul (mat_identity 2) r)
      in (\<lparr>k_x = x, k_P = P, k_A = A, k_H = H, k_Q = Q, k_R = R,
           firstRun = True, k_lastTimestamp = None\<rparr>, h6))"

text \<open>
  Lines 119-128 and the reads of line 130: predict and update on matrix values. The
  result is \<open>(x_new, P_new, estimate)\<close>. Arguments are evaluated left to right.
\<close>

definition kalman_predict_update ::
  "Matrix \<Rightarrow> Matrix \<Rightarrow> Matrix \<Rightarrow> Matrix \<Rightarrow> Matrix \<Rightarrow> Matrix \<Rightarrow> Coordinates
     \<Rightarrow> error + Matrix \<times> Matrix \<times> Coordinates" where
  "kalman_predict_update x P A H Q R measurement =
     bindR (mat_mul A x) (\<lambda>x_pred.
     bindR (mat_mul A P) (\<lambda>AP.
     bindR (mat_transpose A) (\<lambda>At.
     bindR (mat_mul AP At) (\<lambda>APAt.
     bindR (mat_add APAt Q) (\<lambda>P_pred.
     let z = [[coord_x measurement], [coord_y measurement]] in
     bindR (mat_mul H x_pred) (\<lambda>Hx.
     bindR (mat_sub z Hx) (\<lambda>y.
     bindR (mat_mul H P_pred) (\<lambda>HP.
     bindR (mat_transpose H) (\<lambda>Ht.
     bindR (mat_mul HP Ht) (\<lambda>HPHt.
     bindR (mat_add HPHt R) (\<lambda>S.
     bindR (mat_transpose H) (\<lambda>Ht'.
     bindR (mat_mul P_pred Ht') (\<lambda>PHt.
     bindR (mat_inv_2x2 S) (\<lambda>Sinv.
     bindR (mat_mul PHt Sinv) (\<lambda>K.
     bindR (mat_mul K y) (\<lambda>Ky.
     bindR (mat_add x_pred Ky) (\<lambda>x_new.
     let I = mat_identity 4 in
     bindR (mat_mul K H) (\<lambda>KH.
     bindR (mat_sub I KH) (\<lambda>IKH.
     bindR (mat_mul IKH P_pred) (\<lambda>P_new.
     bindR (elem_at x_new 0 0) (\<lambda>ex.
     bindR (elem_at x_new 1 0) (\<lambda>ey.
     Inr (x_new, P_new, \<lparr>coord_x = ex, coord_y = ey\<rparr>)))))))))))))))))))))))"

text \<open>
  \<^verbatim>\<open>applyKalmanFilter\<close>. The two assignments to \<open>A\<close> go to the array the input state
  refers to. A fresh \<open>x\<close> is bound on the first run. The store is returned on failure
  too: what was written before the throw stays written. The returned state is the
  spread of the input state with \<open>x\<close>, \<open>P\<close>, \<open>firstRun\<close> and \<open>lastTimestamp\<close> replaced.
\<close>

definition applyKalmanFilter ::
  "KalmanFilterInstance \<Rightarrow> Coordinates \<Rightarrow> int \<Rightarrow> heap
     \<Rightarrow> (error + Coordinates \<times> KalmanFilterInstance) \<times> heap" where
  "applyKalmanFilter flt measurement currentTimestamp h =
     (let dt = time_step (k_lastTimestamp flt) currentTimestamp;
          lastTimestamp = Some currentTimestamp
      in case store h (k_A flt) 0 2 dt of
           Inl e \<Rightarrow> (Inl e, h)
         | Inr h1 \<Rightarrow>
        (case store h1 (k_A flt) 1 3 dt of
           Inl e \<Rightarrow> (Inl e, h1)
         | Inr h2 \<Rightarrow>
        (let x = (if firstRun flt
                  then [[coord_x measurement], [coord_y measurement], [0], [0]]
                  else h2 ! k_x flt);
             firstRun' = (if firstRun flt then False else firstRun flt)
         in case kalman_predict_update x (h2 ! k_P flt) (h2 ! k_A flt) (h2 ! k_H flt)
                   (h2 ! k_Q flt) (h2 ! k_R flt) measurement of
              Inl e \<Rightarrow> (Inl e, h2)
            | Inr (x_new, P_new, est) \<Rightarrow>
                (let (ax, h3) = alloc h2 x_new;
                     (aP, h4) = alloc h3 P_new
                 in (Inr (est, flt\<lparr>k_x := ax, k_P := aP, firstRun := firstRun',
                                    k_lastTimestamp := lastTimestamp\<rparr>), h4)))))"

section \<open>Unscented Kalman filter (src/services/filterService.ts, lines 134-262)\<close>

record UKFInstance =
  u_x :: addr
  u_P :: addr
  u_Q :: addr
  u_R :: addr
  u_n :: nat
  u_m :: nat
  u_alpha :: real
  u_beta :: real
  u_kappa :: real
  u_lambda :: real
  weights_m :: "real list"
  weights_c :: "real list"
  u_lastTimestamp :: "int option"
  lastMeasurement :: "Coordinates option"

text \<open>
  \<^verbatim>\<open>initialUKF\<close>. The divisors \<open>n + lambda\<close> and \<open>2 * (n + lambda)\<close> are the constants
  0.0005 and 0.001. \<open>Q\<close> is allocated before the state literal is evaluated.
\<close>

definition initialUKF :: "real \<Rightarrow> real \<Rightarrow> heap \<Rightarrow> UKFInstance \<times> heap" where
  "initialUKF q_val r_val h =
     (let n = (5::nat);
          m = (2::nat);
          alpha = (1/100 :: real);
          kappa = (0::real);
          beta = (2::real);
          lambda = alpha * alpha * (real n + kappa) - real n;
          weights_m0 = (replicate (2 * n + 1) 0)[0 := lambda / (real n + lambda)];
          weights_c0 = (replicate (2 * n + 1) 0)
                         [0 := lambda / (real n + lambda) + (1 - alpha * alpha + beta)];
          (weights_m', weights_c') =
             foldl (\<lambda>(wm, wc) i. (wm[i := 1 / (2 * (real n + lambda))],
                                   wc[i := 1 / (2 * (real n + lambda))]))
                   (weights_m0, weights_c0) [1..<2 * n + 1];
          Q0 = mat_identity n;
          Q1 = Q0[0 := (Q0 ! 0)[0 := 1/10]];
          Q2 = Q1[1 := (Q1 ! 1)[1 := 1/10]];
          Q3 = Q2[2 := (Q2 ! 2)[2 := q_val]];
          Q4 = Q3[3 := (Q3 ! 3)[3 := 1/10]];
          Q5 = Q4[4 := (Q4 ! 4)[4 := q_val]];
          (Q, h1) = alloc h Q5;
          (x, h2) = alloc h1 [[0], [0], [0], [0], [0]];
          (P, h3) = alloc h2 (mat_identity n);
          (R, h4) = alloc h3 (mat_scalar_mul (mat_identity m) r_val)
      in (\<lparr>u_x = x, u_P = P, u_Q = Q, u_R = R, u_n = n, u_m = m, u_alpha = alpha,
           u_beta = beta, u_kappa = kappa, u_lambda = lambda,
           weights_m = weights_m', weights_c = weights_c',
           u_lastTimestamp = None, lastMeasurement = None\<rparr>, h4))"

text \<open>
  \<^verbatim>\<open>Math.atan2(y, x)\<close> on real arguments (the differences \<open>dy\<close>, \<open>dx\<close> are never the
  negative zero).
\<close>

definition atan2 :: "real \<Rightarrow> real \<Rightarrow> real" where
  "atan2 y x =
     (if x > 0 then arctan (y / x)
      else if x < 0 then (if y \<ge> 0 then arctan (y / x) + pi else arctan (y / x) - pi)
      else if y > 0 then pi / 2
      else if y < 0 then - (pi / 2)
      else 0)"

text \<open>The read \<^verbatim>\<open>weights[i]\<close> of a number array.\<close>

definition weight_at :: "real list \<Rightarrow> nat \<Rightarrow> error + real" where
  "weight_at ws i = (if i < length ws then Inr (ws ! i) else Inl NotANumber)"

text \<open>
  Lines 202-216: one sigma point through the coordinated-turn model. The quotient
  \<open>v / omega\<close> is only formed under \<open>|omega| > 0.0001\<close>.
\<close>

definition predict_sigma_point :: "real \<Rightarrow> Matrix \<Rightarrow> error + Matrix" where
  "predict_sigma_point dt sp =
     bindR (elem_at sp 0 0) (\<lambda>px. bindR (elem_at sp 1 0) (\<lambda>py.
     bindR (elem_at sp 2 0) (\<lambda>v. bindR (elem_at sp 3 0) (\<lambda>theta.
     bindR (elem_at sp 4 0) (\<lambda>omega.
     bindR (if \<bar>omega\<bar> > 1/10000
            then bindR (js_div v omega) (\<lambda>q.
                   Inr (px + q * (sin (theta + omega * dt) - sin theta),
                        py + q * (- cos (theta + omega * dt) + cos theta)))
            else Inr (px + v * cos theta * dt, py + v * sin theta * dt))
       (\<lambda>(px_p, py_p).
          let v_p = v; theta_p = theta + omega * dt; omega_p = omega
          in Inr [[px_p], [py_p], [v_p], [theta_p], [omega_p]]))))))"

text \<open>
  Lines 218-221 and 232-235: \<^verbatim>\<open>acc[j][0] += weights_m[i] * points[i][j][0]\<close> for
  \<open>i < 2n + 1\<close> and \<open>j < d\<close>, on a \<open>d \<times> 1\<close> accumulator that starts at zero. Only
  the read of a missing row \<open>points[i][j]\<close> throws, so it is checked first.
\<close>

definition weighted_mean :: "nat \<Rightarrow> nat \<Rightarrow> real list \<Rightarrow> Matrix list \<Rightarrow> error + Matrix" where
  "weighted_mean n d ws points =
     for_each [0..<2 * n + 1] (\<lambda>i.
       for_each [0..<d] (\<lambda>j acc.
         bindR (elem_at (points ! i) j 0) (\<lambda>p.
         bindR (weight_at ws i) (\<lambda>w.
         Inr (acc[j := (acc ! j)[0 := acc ! j ! 0 + w * p]])))))
       (replicate d [0])"

text \<open>
  Lines 223-227, 237-241 and 244-249:
  \<^verbatim>\<open>acc = mat_add(acc, mat_scalar_mul(mat_mul(left_i, mat_transpose(right_i)), weights_c[i]))\<close>
  with \<open>left_i = mat_sub(ps[i], p_mean)\<close> and \<open>right_i = mat_sub(qs[i], q_mean)\<close>.
\<close>

definition weighted_cov ::
  "nat \<Rightarrow> real list \<Rightarrow> Matrix list \<Rightarrow> Matrix \<Rightarrow> Matrix list \<Rightarrow> Matrix \<Rightarrow> Matrix
     \<Rightarrow> error + Matrix" where
  "weighted_cov n ws ps p_mean qs q_mean acc0 =
     for_each [0..<2 * n + 1] (\<lambda>i acc.
       bindR (mat_sub (ps ! i) p_mean) (\<lambda>left.
       bindR (mat_sub (qs ! i) q_mean) (\<lambda>right.
       bindR (mat_transpose right) (\<lambda>rt.
       bindR (mat_mul left rt) (\<lambda>prod.
       bindR (weight_at ws i) (\<lambda>w.
       mat_add acc (mat_scalar_mul prod w)))))))
       acc0"

text \<open>
  Lines 191-261: the filter recursion proper, on the values of \<open>x\<close>, \<open>P\<close>, \<open>Q\<close>, \<open>R\<close>.
  The result is \<open>(x_new, P_new, estimate)\<close>. \<open>sigma_points\<close> has \<open>2n + 1\<close> entries and
  is written at \<open>0\<close>, \<open>i + 1\<close> and \<open>i + 1 + n\<close> for \<open>i < n\<close>.
\<close>

definition ukf_cycle ::
  "Matrix \<Rightarrow> Matrix \<Rightarrow> Matrix \<Rightarrow> Matrix \<Rightarrow> nat \<Rightarrow> nat \<Rightarrow> real \<Rightarrow> real list \<Rightarrow> real list
     \<Rightarrow> real \<Rightarrow> Coordinates \<Rightarrow> error + Matrix \<times> Matrix \<times> Coordinates" where
  "ukf_cycle x P Q R n m lambda ws_m ws_c dt measurement =
     (let sigma_points0 = replicate (2 * n + 1) (replicate n [0]) in
      bindR (mat_cholesky (mat_scalar_mul P (real n + lambda))) (\<lambda>P_sqrt.
      bindR (for_each [0..<n] (\<lambda>i sps.
               bindR (map_each (\<lambda>row. if i < length row then Inr [row ! i]
                                        else Inl NotANumber) P_sqrt) (\<lambda>col.
               bindR (mat_add x col) (\<lambda>plus.
               bindR (mat_sub x col) (\<lambda>minus.
               Inr (sps[i + 1 := plus, i + 1 + n := minus])))))
             (sigma_points0[0 := x])) (\<lambda>sigma_points.
      bindR (map_each (predict_sigma_point dt) sigma_points) (\<lambda>sigma_points_pred.
      bindR (weighted_mean n n ws_m sigma_points_pred) (\<lambda>x_pred.
      bindR (weighted_cov n ws_c sigma_points_pred x_pred sigma_points_pred x_pred
               (replicate n (replicate n 0))) (\<lambda>P_pred0.
      bindR (mat_add P_pred0 Q) (\<lambda>P_pred.
      bindR (map_each (\<lambda>sp. bindR (elem_at sp 0 0) (\<lambda>a. bindR (elem_at sp 1 0) (\<lambda>b.
                               Inr [[a], [b]]))) sigma_points_pred) (\<lambda>z_sigma_points.
      bindR (weighted_mean n m ws_m z_sigma_points) (\<lambda>z_pred.
      bindR (weighted_cov n ws_c z_sigma_points z_pred z_sigma_points z_pred
               (replicate m (replicate m 0))) (\<lambda>S0.
      bindR (mat_add S0 R) (\<lambda>S.
      bindR (weighted_cov n ws_c sigma_points_pred x_pred z_sigma_points z_pred
               (replicate n (replicate m 0))) (\<lambda>T.
      bindR (mat_inv_2x2 S) (\<lambda>Sinv.
      bindR (mat_mul T Sinv) (\<lambda>K.
      let z_actual = [[coord_x measurement], [coord_y measurement]] in
      bindR (mat_sub z_actual z_pred) (\<lambda>z_residual.
      bindR (mat_mul K z_residual) (\<lambda>Kz.
      bindR (mat_add x_pred Kz) (\<lambda>x_new.
      bindR (mat_mul K S) (\<lambda>KS.
      bindR (mat_transpose K) (\<lambda>Kt.
      bindR (mat_mul KS Kt) (\<lambda>KSKt.
      bindR (mat_sub P_pred KSKt) (\<lambda>P_new.
      bindR (elem_at x_new 0 0) (\<lambda>ex.
      bindR (elem_at x_new 1 0) (\<lambda>ey.
      Inr (x_new, P_new, \<lparr>coord_x = ex, coord_y = ey\<rparr>))))))))))))))))))))))))"

text \<open>
  Lines 181-189: the finite-difference seed of speed and heading, written into the
  array the input state refers to. \<^verbatim>\<open>x[2][0] === 0\<close> is only evaluated when
  \<open>lastTimestamp\<close> is truthy; it throws when row 2 is missing and is false when the
  row is empty.
\<close>

definition ukf_bootstrap ::
  "UKFInstance \<Rightarrow> Coordinates \<Rightarrow> Coordinates \<Rightarrow> real \<Rightarrow> heap \<Rightarrow> (error + unit) \<times> heap" where
  "ukf_bootstrap flt measurement lastM dt h =
     (if truthy (u_lastTimestamp flt)
      then (if 2 < length (h ! u_x flt)
            then (if 0 < length (h ! u_x flt ! 2) \<and> h ! u_x flt ! 2 ! 0 = 0
                  then (let dx = coord_x measurement - coord_x lastM;
                            dy = coord_y measurement - coord_y lastM
                        in case js_div (sqrt (dx * dx + dy * dy)) dt of
                             Inl e \<Rightarrow> (Inl e, h)
                           | Inr speed \<Rightarrow>
                          (let heading = atan2 dy dx
                           in case store h (u_x flt) 2 0 speed of
                                Inl e \<Rightarrow> (Inl e, h)
                              | Inr h1 \<Rightarrow>
                             (case store h1 (u_x flt) 3 0 heading of
                                Inl e \<Rightarrow> (Inl e, h1)
                              | Inr h2 \<Rightarrow> (Inr (), h2))))
                  else (Inr (), h))
            else (Inl TypeError, h))
      else (Inr (), h))"

text \<open>
  \<^verbatim>\<open>applyUKF\<close>. On the first call (\<open>lastMeasurement\<close> is \<^verbatim>\<open>null\<close>) the position is
  assigned into the array the input state refers to, and the returned state is the
  spread of the input state with the two last-call fields replaced.
\<close>

definition applyUKF ::
  "UKFInstance \<Rightarrow> Coordinates \<Rightarrow> int \<Rightarrow> heap \<Rightarrow> (error + Coordinates \<times> UKFInstance) \<times> heap" where
  "applyUKF flt measurement currentTimestamp h =
     (let dt = time_step (u_lastTimestamp flt) currentTimestamp
      in case lastMeasurement flt of
           None \<Rightarrow>
             (case store h (u_x flt) 0 0 (coord_x measurement) of
                Inl e \<Rightarrow> (Inl e, h)
              | Inr h1 \<Rightarrow>
             (case store h1 (u_x flt) 1 0 (coord_y measurement) of
                Inl e \<Rightarrow> (Inl e, h1)
              | Inr h2 \<Rightarrow>
             (case bindR (elem_at (h2 ! u_x flt) 0 0) (\<lambda>ex.
                   bindR (elem_at (h2 ! u_x flt) 1 0) (\<lambda>ey.
                   Inr \<lparr>coord_x = ex, coord_y = ey\<rparr>)) of
                Inl e \<Rightarrow> (Inl e, h2)
              | Inr est \<Rightarrow>
                  (Inr (est, flt\<lparr>u_lastTimestamp := Some currentTimestamp,
                                    lastMeasurement := Some measurement\<rparr>), h2))))
         | Some lastM \<Rightarrow>
             (case ukf_bootstrap flt measurement lastM dt h of
                (Inl e, h1) \<Rightarrow> (Inl e, h1)
              | (Inr u, h1) \<Rightarrow>
             (case ukf_cycle (h1 ! u_x flt) (h1 ! u_P flt) (h1 ! u_Q flt) (h1 ! u_R flt)
                     (u_n flt) (u_m flt) (u_lambda flt) (weights_m flt) (weights_c flt)
                     dt measurement of
                Inl e \<Rightarrow> (Inl e, h1)
              | Inr (x_new, P_new, est) \<Rightarrow>
                  (let (ax, h2) = alloc h1 x_new;
                       (aP, h3) = alloc h2 P_new
                   in (Inr (est, flt\<lparr>u_x := ax, u_P := aP,
                                      u_lastTimestamp := Some currentTimestamp,
                                      lastMeasurement := Some measurement\<rparr>), h3)))))"

section \<open>Notions used to state the properties\<close>

text \<open>
  The partial sum \<open>\<Sigma> L[i][k] * L[j][k]\<close> over \<open>k < j\<close> of the Cholesky recurrence, and
  the value the spec gives entry \<open>(i, j)\<close> of the factor: the clamped square root on
  the diagonal, the quotient below it unless the pivot \<open>L[j][j]\<close> is 0, and 0 above.
  \<open>chol_inv A i j L\<close> is the state of the loops when they reach \<open>(i, j)\<close>: the entries
  before \<open>(i, j)\<close> in row-major order have their value, all others are still 0.
\<close>

definition chol_sum :: "Matrix \<Rightarrow> nat \<Rightarrow> nat \<Rightarrow> real" where
  "chol_sum L i j = foldl (\<lambda>s k. s + L ! i ! k * L ! j ! k) 0 [0..<j]"

definition chol_entry :: "Matrix \<Rightarrow> Matrix \<Rightarrow> nat \<Rightarrow> nat \<Rightarrow> real" where
  "chol_entry A L i j =
     (if i = j then (if A ! i ! i - chol_sum L i j > 0 then sqrt (A ! i ! i - chol_sum L i j) else 0)
      else if j < i then (if L ! j ! j = 0 then 0 else 1 / L ! j ! j * (A ! i ! j - chol_sum L i j))
      else 0)"

definition chol_inv :: "Matrix \<Rightarrow> nat \<Rightarrow> nat \<Rightarrow> Matrix \<Rightarrow> bool" where
  "chol_inv A i j L =
     (length L = length A \<and> (\<forall>i'<length A. length (L ! i') = length A) \<and>
      (\<forall>i'<length A. \<forall>j'<length A.
          L ! i' ! j' = (if i' < i \<or> (i' = i \<and> j' < j) then chol_entry A L i' j' else 0)))"

text \<open>
  The covariance a Kalman filter built by \<open>initialKalmanFilter q r\<close> holds after its
  first update, in closed form.
\<close>

definition kalman_P1 :: "real \<Rightarrow> real \<Rightarrow> Matrix" where
  "kalman_P1 q r =
     [[(1 - (2 + q) / (2 + q + r)) * (2 + q), 0, 1 - (2 + q) / (2 + q + r), 0],
      [0, (1 - (2 + q) / (2 + q + r)) * (2 + q), 0, 1 - (2 + q) / (2 + q + r)],
      [1 - (2 + q) / (2 + q + r), 0, 1 + q - 1 / (2 + q + r), 0],
      [0, 1 - (2 + q) / (2 + q + r), 0, 1 + q - 1 / (2 + q + r)]]"

section \<open>Properties of the matrix algebra\<close>

lemma bindR_Inr [simp]: "bindR (Inr v) f = f v" by (simp add: bindR_def)
lemma bindR_Inl [simp]: "bindR (Inl e) f = Inl e" by (simp add: bindR_def)

lemma for_each_append:
  "for_each (xs @ ys) body s = bindR (for_each xs body s) (for_each ys body)"
  by (induction xs arbitrary: s) (auto simp: bindR_def split: sum.splits)

lemma for_each_snoc:
  "for_each [0..<Suc n] body s = bindR (for_each [0..<n] body s) (body n)"
  by (simp add: for_each_append bindR_def split: sum.splits)

lemma for_each_upt_inv:
  assumes "I 0 s" and step: "\<And>k s. k < n \<Longrightarrow> I k s \<Longrightarrow> \<exists>s'. body k s = Inr s' \<and> I (Suc k) s'"
  shows "\<exists>s'. for_each [0..<n] body s = Inr s' \<and> I n s'"
  using step
proof (induction n)
  case 0
  then show ?case using assms(1) by simp
next
  case (Suc n)
  have "\<exists>s'. for_each [0..<n] body s = Inr s' \<and> I n s'"
    by (rule Suc.IH) (simp add: Suc.prems)
  then obtain s1 where 1: "for_each [0..<n] body s = Inr s1" and 2: "I n s1" by blast
  from Suc.prems[of n s1] 2 obtain s2 where "body n s1 = Inr s2" "I (Suc n) s2" by auto
  with 1 show ?case by (simp add: for_each_append)
qed

lemma elem_at_in_range: "i < length M \<Longrightarrow> j < length (M ! i) \<Longrightarrow> elem_at M i j = Inr (M ! i ! j)"
  by (simp add: elem_at_def)

text \<open>The innermost loop of \<open>mat_mul\<close> accumulates one entry.\<close>

lemma mul_k_loop:
  fixes A B :: "('a::{zero,plus,times}) list list"
  assumes "i < length A" "n \<le> length (A ! i)" "n \<le> length B" "\<forall>k<n. j < length (B ! k)"
     "i < length C" "j < length (C ! i)"
  shows "for_each [0..<n] (\<lambda>k C.
                 bindR (elem_at A i k) (\<lambda>a.
                 bindR (elem_at B k j) (\<lambda>b.
                 Inr (C[i := (C ! i)[j := C ! i ! j + a * b]])))) C
         = Inr (C[i := (C ! i)[j := foldl (\<lambda>s k. s + A ! i ! k * B ! k ! j) (C ! i ! j) [0..<n]]])"
  using assms
proof (induction n)
  case 0
  then show ?case by simp
next
  case (Suc n)
  then show ?case
    by (simp add: for_each_append elem_at_in_range)
qed

text \<open>The middle loop fills row \<open>i\<close> from the left.\<close>

lemma mul_j_loop:
  fixes A B :: "('a::{zero,plus,times}) list list"
  assumes "i < length A" "length (A ! i) = length B" "\<forall>k<length B. m \<le> length (B ! k)"
     "i < length C" "m \<le> length (C ! i)" "n = length B"
  shows "for_each [0..<m] (\<lambda>j. for_each [0..<n] (\<lambda>k C.
                 bindR (elem_at A i k) (\<lambda>a.
                 bindR (elem_at B k j) (\<lambda>b.
                 Inr (C[i := (C ! i)[j := C ! i ! j + a * b]]))))) C
         = Inr (C[i := map (\<lambda>j. foldl (\<lambda>s k. s + A ! i ! k * B ! k ! j) (C ! i ! j) [0..<n]) [0..<m]
                        @ drop m (C ! i)])"
  using assms
proof (induction m)
  case 0
  then show ?case by simp
next
  case (Suc m)
  let ?f = "\<lambda>j. foldl (\<lambda>s k. s + A ! i ! k * B ! k ! j) (C ! i ! j) [0..<n]"
  let ?C1 = "C[i := map ?f [0..<m] @ drop m (C ! i)]"
  have 1: "for_each [0..<m] (\<lambda>j. for_each [0..<n] (\<lambda>k C.
                 bindR (elem_at A i k) (\<lambda>a.
                 bindR (elem_at B k j) (\<lambda>b.
                 Inr (C[i := (C ! i)[j := C ! i ! j + a * b]]))))) C = Inr ?C1"
  proof (rule Suc.IH)
    show "\<forall>k<length B. m \<le> length (B ! k)" using Suc.prems(3) by (auto dest: Suc_leD)
  qed (use Suc.prems in auto)
  have len: "m < length (C ! i)" using Suc.prems by simp
  have 2: "?C1 ! i ! m = C ! i ! m" using Suc.prems by (simp add: nth_append)
  have 3: "for_each [0..<n] (\<lambda>k C.
                 bindR (elem_at A i k) (\<lambda>a.
                 bindR (elem_at B k m) (\<lambda>b.
                 Inr (C[i := (C ! i)[m := C ! i ! m + a * b]])))) ?C1
        = Inr (?C1[i := (?C1 ! i)[m := foldl (\<lambda>s k. s + A ! i ! k * B ! k ! m) (?C1 ! i ! m) [0..<n]]])"
    using Suc.prems by (intro mul_k_loop) auto
  have 4: "(?C1[i := (?C1 ! i)[m := ?f m]]) = C[i := map ?f [0..<Suc m] @ drop (Suc m) (C ! i)]"
    using Suc.prems len
    by (simp add: list_update_append Cons_nth_drop_Suc[symmetric])
  show ?case
    unfolding for_each_snoc 1 bindR_Inr 3 2 4 ..
qed


text \<open>The outer loop fills the rows from the top.\<close>

lemma mul_i_loop:
  fixes A B :: "('a::{zero,plus,times}) list list"
  assumes "r \<le> length A" "\<forall>i<length A. length (A ! i) = length B"
     "\<forall>k<length B. length (B ! k) = c" "n = length B"
  shows "for_each [0..<r] (\<lambda>i. for_each [0..<c] (\<lambda>j. for_each [0..<n] (\<lambda>k C.
                 bindR (elem_at A i k) (\<lambda>a.
                 bindR (elem_at B k j) (\<lambda>b.
                 Inr (C[i := (C ! i)[j := C ! i ! j + a * b]]))))))
           (replicate (length A) (replicate c 0))
         = Inr (map (\<lambda>i. map (\<lambda>j. foldl (\<lambda>s k. s + A ! i ! k * B ! k ! j) 0 [0..<n]) [0..<c]) [0..<r]
                @ replicate (length A - r) (replicate c 0))"
  using assms
proof (induction r)
  case 0
  then show ?case by simp
next
  case (Suc r)
  let ?row = "\<lambda>i. map (\<lambda>j. foldl (\<lambda>s k. s + A ! i ! k * B ! k ! j) 0 [0..<n]) [0..<c]"
  let ?C1 = "map ?row [0..<r] @ replicate (length A - r) (replicate c (0::'a))"
  have 1: "for_each [0..<r] (\<lambda>i. for_each [0..<c] (\<lambda>j. for_each [0..<n] (\<lambda>k C.
                 bindR (elem_at A i k) (\<lambda>a.
                 bindR (elem_at B k j) (\<lambda>b.
                 Inr (C[i := (C ! i)[j := C ! i ! j + a * b]]))))))
           (replicate (length A) (replicate c 0)) = Inr ?C1"
  proof (rule Suc.IH)
    show "r \<le> length A" using Suc.prems(1) by simp
  qed (rule Suc.prems)+
  have r: "r < length A" using Suc.prems(1) by simp
  have row: "?C1 ! r = replicate c 0" using r by (simp add: nth_append)
  have 2: "for_each [0..<c] (\<lambda>j. for_each [0..<n] (\<lambda>k C.
                 bindR (elem_at A r k) (\<lambda>a.
                 bindR (elem_at B k j) (\<lambda>b.
                 Inr (C[r := (C ! r)[j := C ! r ! j + a * b]]))))) ?C1
         = Inr (?C1[r := map (\<lambda>j. foldl (\<lambda>s k. s + A ! r ! k * B ! k ! j) (?C1 ! r ! j) [0..<n]) [0..<c]
                        @ drop c (?C1 ! r)])"
  proof (rule mul_j_loop)
    show "r < length A" by (rule r)
    show "length (A ! r) = length B" using Suc.prems(2) r by blast
    show "\<forall>k<length B. c \<le> length (B ! k)" using Suc.prems(3) by simp
    show "r < length ?C1" using r by simp
    show "c \<le> length (?C1 ! r)" unfolding row by simp
    show "n = length B" by (rule Suc.prems(4))
  qed
  have 3: "map (\<lambda>j. foldl (\<lambda>s k. s + A ! r ! k * B ! k ! j) (?C1 ! r ! j) [0..<n]) [0..<c]
                        @ drop c (?C1 ! r) = ?row r"
    unfolding row by (simp cong: map_cong)
  have 4: "?C1[r := ?row r] = map ?row [0..<Suc r] @ replicate (length A - Suc r) (replicate c 0)"
  proof -
    have "length A - r = Suc (length A - Suc r)" using r by simp
    then show ?thesis by (simp add: list_update_append)
  qed
  show ?case
    apply (subst for_each_snoc)
    apply (subst 1)
    apply (subst bindR_Inr)
    apply (subst 2)
    apply (subst 3)
    apply (subst 4)
    apply (rule refl)
    done
qed

lemma mat_mul_closed:
  fixes A B :: "('a::{zero,plus,times}) list list"
  assumes "A \<noteq> []" "B \<noteq> []" "\<forall>i<length A. length (A ! i) = length B"
     "\<forall>k<length B. length (B ! k) = length (B ! 0)"
  shows "mat_mul A B =
     Inr (map (\<lambda>i. map (\<lambda>j. foldl (\<lambda>s k. s + A ! i ! k * B ! k ! j) 0 [0..<length B])
                       [0..<length (B ! 0)]) [0..<length A])"
proof -
  from assms(1) have "0 < length A" by simp
  with assms(3) have len: "length (A ! 0) = length B" by blast
  have loop: "for_each [0..<length A] (\<lambda>i. for_each [0..<length (B ! 0)] (\<lambda>j.
               for_each [0..<length B] (\<lambda>k C.
                 bindR (elem_at A i k) (\<lambda>a.
                 bindR (elem_at B k j) (\<lambda>b.
                 Inr (C[i := (C ! i)[j := C ! i ! j + a * b]]))))))
           (replicate (length A) (replicate (length (B ! 0)) 0))
         = Inr (map (\<lambda>i. map (\<lambda>j. foldl (\<lambda>s k. s + A ! i ! k * B ! k ! j) 0 [0..<length B])
                       [0..<length (B ! 0)]) [0..<length A]
                @ replicate (length A - length A) (replicate (length (B ! 0)) 0))"
  proof (rule mul_i_loop)
    show "length A \<le> length A" by simp
    show "\<forall>i<length A. length (A ! i) = length B" by (rule assms(3))
    show "\<forall>k<length B. length (B ! k) = length (B ! 0)" by (rule assms(4))
    show "length B = length B" by simp
  qed
  show ?thesis
    unfolding mat_mul_def len loop using assms(1,2) by simp
qed


lemma upt_numerals:
  "[0..<1] = [0]" "[0..<2] = [0, 1]" "[0..<3] = [0, 1, 2]" "[0..<4] = [0, 1, 2, 3]"
  "[0..<5] = [0, 1, 2, 3, 4]"
  by (simp_all add: upt_conv_Cons)

lemma well_formed_rows:
  "well_formed M \<Longrightarrow> i < length M \<Longrightarrow> length (M ! i) = length (M ! 0)"
  unfolding well_formed_def list_all_length by blast

text \<open>
  Claim C3. On well-formed matrices \<open>mat_mul\<close> fails with \<open>IncompatibleDimensions\<close>
  exactly when \<open>cols A \<noteq> rows B\<close>; when \<open>cols A = rows B\<close> it returns a matrix of
  \<open>rows A\<close> rows of length \<open>cols B\<close> whose entry \<open>(i, j)\<close> is the sum of
  \<open>A[i][k] * B[k][j]\<close> accumulated from 0 in ascending \<open>k\<close>. The entries range over
  any type with zero, addition and multiplication, with no law assumed.
\<close>

theorem mat_mul_spec:
  fixes A B :: "('a::{zero,plus,times}) list list"
  assumes "well_formed A" and "well_formed B"
  shows "(mat_mul A B = Inl IncompatibleDimensions \<longleftrightarrow> cols A \<noteq> rows B)
       \<and> (cols A = rows B \<longrightarrow>
            (\<exists>C. mat_mul A B = Inr C \<and> rows C = rows A
                 \<and> list_all (\<lambda>row. length row = cols B) C
                 \<and> (\<forall>i<rows A. \<forall>j<cols B.
                       C ! i ! j = foldl (\<lambda>s k. s + A ! i ! k * B ! k ! j) 0 [0..<cols A])))"
proof (cases "cols A = rows B")
  case False
  then show ?thesis using assms by (simp add: mat_mul_def cols_def rows_def well_formed_def)
next
  case True
  have A: "A \<noteq> []" and B: "B \<noteq> []" using assms by (simp_all add: well_formed_def)
  have rowsA: "\<forall>i<length A. length (A ! i) = length B"
    using well_formed_rows[OF assms(1)] True by (simp add: cols_def rows_def)
  have rowsB: "\<forall>k<length B. length (B ! k) = length (B ! 0)"
    using well_formed_rows[OF assms(2)] by simp
  have eq: "mat_mul A B =
     Inr (map (\<lambda>i. map (\<lambda>j. foldl (\<lambda>s k. s + A ! i ! k * B ! k ! j) 0 [0..<length B])
                       [0..<length (B ! 0)]) [0..<length A])"
    by (rule mat_mul_closed[OF A B rowsA rowsB])
  show ?thesis
    unfolding eq using True by (simp add: cols_def rows_def list_all_length)
qed

theorem mat_mul_spec_witness:
  "well_formed [[1, 2], [3, 4::real]] \<and> well_formed [[5, 6], [7, 8::real]]
   \<and> cols [[1, 2], [3, 4::real]] = rows [[5, 6], [7, 8::real]]
   \<and> mat_mul [[1, 2], [3, 4]] [[5, 6], [7, 8::real]] \<noteq> Inl IncompatibleDimensions
   \<and> mat_mul [[1, 2], [3, 4]] [[5, 6], [7, 8::real]] = Inr [[19, 22], [43, 50]]
   \<and> well_formed [[1, 2, 3::real]] \<and> cols [[1, 2, 3::real]] \<noteq> rows [[5, 6], [7, 8::real]]
   \<and> mat_mul [[1, 2, 3]] [[5, 6], [7, 8::real]] = Inl IncompatibleDimensions"
proof -
  have a: "well_formed [[1, 2], [3, 4::real]]" by (simp add: well_formed_def)
  have b: "well_formed [[5, 6], [7, 8::real]]" by (simp add: well_formed_def)
  have c: "well_formed [[1, 2, 3::real]]" by (simp add: well_formed_def)
  have d: "cols [[1, 2], [3, 4::real]] = rows [[5, 6], [7, 8::real]]"
    by (simp add: cols_def rows_def)
  have e: "cols [[1, 2, 3::real]] \<noteq> rows [[5, 6], [7, 8::real]]"
    by (simp add: cols_def rows_def)
  have v: "mat_mul [[1, 2], [3, 4]] [[5, 6], [7, 8::real]] = Inr [[19, 22], [43, 50]]"
    by (simp add: mat_mul_def upt_numerals elem_at_def)
  from mat_mul_spec[OF a b] d
  have 1: "mat_mul [[1, 2], [3, 4]] [[5, 6], [7, 8::real]] \<noteq> Inl IncompatibleDimensions"
    by blast
  from mat_mul_spec[OF c b] e
  have 2: "mat_mul [[1, 2, 3]] [[5, 6], [7, 8::real]] = Inl IncompatibleDimensions"
    by blast
  from a b c d e v 1 2 show ?thesis by blast
qed

text \<open>
  Claim C4. For every 2 \<times> 2 matrix, \<open>mat_inv_2x2\<close> fails with \<open>SingularMatrix\<close> exactly
  when \<open>det = A[0][0] * A[1][1] - A[0][1] * A[1][0]\<close> is 0, with no tolerance, fails in
  no other way, and otherwise returns \<open>[[A11, -A01], [-A10, A00]]\<close> scaled by \<open>1 / det\<close>;
  \<open>[[1, 2], [2, 4]]\<close> is singular.
\<close>

theorem mat_inv_2x2_spec:
  assumes "length A = 2" and "length (A ! 0) = 2" and "length (A ! 1) = 2"
  shows "(A ! 0 ! 0 * A ! 1 ! 1 - A ! 0 ! 1 * A ! 1 ! 0 = 0 \<longrightarrow>
            mat_inv_2x2 A = Inl SingularMatrix)
       \<and> (A ! 0 ! 0 * A ! 1 ! 1 - A ! 0 ! 1 * A ! 1 ! 0 \<noteq> 0 \<longrightarrow>
            mat_inv_2x2 A =
              Inr (mat_scalar_mul [[A ! 1 ! 1, - (A ! 0 ! 1)], [- (A ! 1 ! 0), A ! 0 ! 0]]
                     (1 / (A ! 0 ! 0 * A ! 1 ! 1 - A ! 0 ! 1 * A ! 1 ! 0))))
       \<and> (\<forall>e. mat_inv_2x2 A = Inl e \<longrightarrow>
            e = SingularMatrix \<and> A ! 0 ! 0 * A ! 1 ! 1 - A ! 0 ! 1 * A ! 1 ! 0 = 0)
       \<and> mat_inv_2x2 [[1, 2], [2, 4]] = Inl SingularMatrix"
  using assms
  by (simp add: mat_inv_2x2_def elem_at_def js_div_def mat_scalar_mul_def Let_def)

theorem mat_inv_2x2_spec_witness:
  "length [[4, 7], [2, 6::real]] = 2 \<and> length ([[4, 7], [2, 6::real]] ! 0) = 2
   \<and> length ([[4, 7], [2, 6::real]] ! 1) = 2
   \<and> mat_inv_2x2 [[4, 7], [2, 6]] = Inr [[6/10, -7/10], [-2/10, 4/10]]
   \<and> mat_inv_2x2 [[1, 2], [2, 4]] = Inl SingularMatrix"
proof -
  have a: "length [[4, 7], [2, 6::real]] = 2" "length ([[4, 7], [2, 6::real]] ! 0) = 2"
    "length ([[4, 7], [2, 6::real]] ! 1) = 2" by simp_all
  have d: "[[4, 7], [2, 6::real]] ! 0 ! 0 * [[4, 7], [2, 6::real]] ! 1 ! 1
           - [[4, 7], [2, 6::real]] ! 0 ! 1 * [[4, 7], [2, 6::real]] ! 1 ! 0 \<noteq> 0" by simp
  from mat_inv_2x2_spec[OF a] d
  have "mat_inv_2x2 [[4, 7], [2, 6]] =
          Inr (mat_scalar_mul [[[[4, 7], [2, 6::real]] ! 1 ! 1, - ([[4, 7], [2, 6::real]] ! 0 ! 1)],
                               [- ([[4, 7], [2, 6::real]] ! 1 ! 0), [[4, 7], [2, 6::real]] ! 0 ! 0]]
                 (1 / ([[4, 7], [2, 6::real]] ! 0 ! 0 * [[4, 7], [2, 6::real]] ! 1 ! 1
                       - [[4, 7], [2, 6::real]] ! 0 ! 1 * [[4, 7], [2, 6::real]] ! 1 ! 0)))"
    by blast
  then have 1: "mat_inv_2x2 [[4, 7], [2, 6]] = Inr [[6/10, -7/10], [-2/10, 4/10]]"
    by (simp add: mat_scalar_mul_def)
  from mat_inv_2x2_spec[OF a]
  have 2: "mat_inv_2x2 [[1, 2], [2, 4]] = Inl SingularMatrix" by blast
  from a 1 2 show ?thesis by blast
qed


text \<open>Identity matrices of the sizes the filters use, and the unfolding set for
  evaluating the matrix operations on explicit matrices.\<close>

lemma mat_identity_2: "mat_identity 2 = [[1, 0], [0, 1]]"
  by (simp add: mat_identity_def upt_conv_Cons eval_nat_numeral)
lemma mat_identity_4: "mat_identity 4 = [[1, 0, 0, 0], [0, 1, 0, 0], [0, 0, 1, 0], [0, 0, 0, 1]]"
  by (simp add: mat_identity_def upt_conv_Cons eval_nat_numeral)

lemmas mat_eval = mat_mul_def mat_add_def mat_sub_def mat_transpose_def mat_scalar_mul_def
  elem_at_def upt_conv_Cons mat_identity_4 mat_identity_2

lemma mat_identity_5: "mat_identity 5 = [[1, 0, 0, 0, 0], [0, 1, 0, 0, 0], [0, 0, 1, 0, 0], [0, 0, 0, 1, 0], [0, 0, 0, 0, 1]]"
  by (simp add: mat_identity_def upt_conv_Cons eval_nat_numeral)

section \<open>Properties of the Cholesky factorisation\<close>

lemma foldl_cong_upt:
  "(\<And>k s. k < n \<Longrightarrow> f s k = g s k) \<Longrightarrow> foldl f a [0..<n] = foldl g a [0..<n]"
  by (induction n) auto

lemma chol_sum_frame:
  assumes "\<And>k. k < j \<Longrightarrow> L' ! i ! k = L ! i ! k" "\<And>k. k < j \<Longrightarrow> L' ! j ! k = L ! j ! k"
  shows "chol_sum L' i j = chol_sum L i j"
  unfolding chol_sum_def by (rule foldl_cong_upt) (simp add: assms)

lemma chol_entry_frame:
  assumes "\<And>k. k < j \<Longrightarrow> L' ! i ! k = L ! i ! k" "\<And>k. k < j \<Longrightarrow> L' ! j ! k = L ! j ! k"
    "j < i \<Longrightarrow> L' ! j ! j = L ! j ! j"
  shows "chol_entry A L' i j = chol_entry A L i j"
proof -
  have "chol_sum L' i j = chol_sum L i j" by (rule chol_sum_frame) (simp_all add: assms)
  then show ?thesis using assms(3) by (auto simp: chol_entry_def)
qed

lemma chol_step:
  assumes inv: "chol_inv A i j L" and ji: "j \<le> i" and i: "i < length A"
  shows "chol_inv A i (Suc j) (L[i := (L ! i)[j := chol_entry A L i j]])"
proof -
  let ?n = "length A"
  let ?L' = "L[i := (L ! i)[j := chol_entry A L i j]]"
  have len: "length L = ?n" and rowlen: "\<And>i'. i' < ?n \<Longrightarrow> length (L ! i') = ?n"
    and cells: "\<And>i' j'. i' < ?n \<Longrightarrow> j' < ?n \<Longrightarrow>
        L ! i' ! j' = (if i' < i \<or> (i' = i \<and> j' < j) then chol_entry A L i' j' else 0)"
    using inv by (auto simp: chol_inv_def)
  have nth': "\<And>i' j'. i' < ?n \<Longrightarrow> j' < ?n \<Longrightarrow>
        ?L' ! i' ! j' = (if i' = i \<and> j' = j then chol_entry A L i j else L ! i' ! j')"
    using len rowlen i by (auto simp: nth_list_update)
  have frame: "chol_entry A ?L' i' j' = chol_entry A L i' j'"
    if "i' < ?n" "j' < ?n" "i' < i \<or> (i' = i \<and> j' \<le> j)" "j' \<le> i'" for i' j'
  proof (rule chol_entry_frame)
    fix k assume "k < j'"
    then show "?L' ! i' ! k = L ! i' ! k" using that by (subst nth') auto
  next
    fix k assume "k < j'"
    then show "?L' ! j' ! k = L ! j' ! k" using that by (subst nth') auto
  next
    assume "j' < i'"
    then show "?L' ! j' ! j' = L ! j' ! j'" using that by (subst nth') auto
  qed
  have upper: "chol_entry A M i' j' = 0" if "i' < j'" for M i' j'
    using that by (simp add: chol_entry_def)
  show ?thesis
    unfolding chol_inv_def
  proof (intro conjI allI impI)
    show "length ?L' = ?n" using len by simp
    show "length (?L' ! i') = ?n" if "i' < ?n" for i'
      using that len rowlen by (cases "i' = i") simp_all
    show "?L' ! i' ! j' = (if i' < i \<or> (i' = i \<and> j' < Suc j) then chol_entry A ?L' i' j' else 0)"
      if "i' < ?n" "j' < ?n" for i' j'
    proof (cases "i' < i \<or> (i' = i \<and> j' \<le> j)")
      case True
      show ?thesis
      proof (cases "j' \<le> i'")
        case le: True
        have "chol_entry A ?L' i' j' = chol_entry A L i' j'"
          using that True le by (intro frame)
        moreover have "?L' ! i' ! j' = chol_entry A L i' j'"
          using that True cells[of i' j'] by (subst nth') auto
        ultimately show ?thesis using True by auto
      next
        case False
        then have "i' < j'" by simp
        then have "chol_entry A ?L' i' j' = 0" "chol_entry A L i' j' = 0" by (rule upper)+
        moreover have "?L' ! i' ! j' = L ! i' ! j'"
          using that \<open>i' < j'\<close> ji by (subst nth') auto
        ultimately show ?thesis using cells[of i' j'] that by auto
      qed
    next
      case False
      then have "?L' ! i' ! j' = L ! i' ! j'" using that by (subst nth') auto
      then show ?thesis using False cells[of i' j'] that by auto
    qed
  qed
qed


lemma square_elem_at:
  "list_all (\<lambda>row. length row = length A) A \<Longrightarrow> i < length A \<Longrightarrow> j < length A \<Longrightarrow>
   elem_at A i j = Inr (A ! i ! j)"
  by (simp add: elem_at_def list_all_length)

lemma chol_body:
  assumes sq: "list_all (\<lambda>row. length row = length A) A"
    and inv: "chol_inv A i j L" and ji: "j \<le> i" and i: "i < length A"
  shows "cholesky_step A i j L = Inr (L[i := (L ! i)[j := chol_entry A L i j]])"
proof -
  have j: "j < length A" using ji i by simp
  have aii: "elem_at A i i = Inr (A ! i ! i)" by (rule square_elem_at[OF sq i i])
  have aij: "elem_at A i j = Inr (A ! i ! j)" by (rule square_elem_at[OF sq i j])
  have zero: "L ! i ! j = 0" if "i \<noteq> j"
    using inv i j that by (simp add: chol_inv_def)
  show ?thesis
  proof (cases "i = j")
    case True
    then show ?thesis
      using aii by (simp add: cholesky_step_def chol_entry_def chol_sum_def Let_def)
  next
    case False
    then have lt: "j < i" using ji by simp
    show ?thesis
    proof (cases "L ! j ! j = 0")
      case True
      have "chol_entry A L i j = L ! i ! j"
        using True False lt zero by (simp add: chol_entry_def)
      then show ?thesis using True False by (simp add: cholesky_step_def Let_def)
    next
      case nz: False
      then show ?thesis
        using False lt
        by (simp add: cholesky_step_def aij js_div_def chol_entry_def chol_sum_def Let_def)
    qed
  qed
qed

lemma chol_inv_next_row: "chol_inv A i (Suc i) L = chol_inv A (Suc i) 0 L"
proof -
  have "(if i' < i \<or> i' = i \<and> j' < Suc i then chol_entry A L i' j' else 0) =
        (if i' < Suc i \<or> i' = Suc i \<and> j' < 0 then chol_entry A L i' j' else 0)" for i' j'
    by (auto simp: chol_entry_def)
  then show ?thesis by (simp add: chol_inv_def)
qed

lemma chol_row:
  assumes sq: "list_all (\<lambda>row. length row = length A) A"
    and inv: "chol_inv A i 0 L" and i: "i < length A"
  shows "\<exists>L'. for_each [0..<i + 1] (cholesky_step A i) L = Inr L' \<and> chol_inv A (Suc i) 0 L'"
proof -
  have "\<exists>L'. for_each [0..<i + 1] (cholesky_step A i) L = Inr L' \<and> chol_inv A i (i + 1) L'"
  proof (rule for_each_upt_inv[where I = "\<lambda>j L. chol_inv A i j L"])
    show "chol_inv A i 0 L" by (rule inv)
  next
    fix k s assume k: "k < i + 1" and s: "chol_inv A i k s"
    then have ki: "k \<le> i" by simp
    show "\<exists>s'. cholesky_step A i k s = Inr s' \<and> chol_inv A i (Suc k) s'"
      unfolding chol_body[OF sq s ki i] using chol_step[OF s ki i] by blast
  qed
  then show ?thesis by (simp add: chol_inv_next_row)
qed

lemma chol_inv_init: "chol_inv A 0 0 (replicate (length A) (replicate (length A) 0))"
  by (simp add: chol_inv_def)

lemma mat_cholesky_inv:
  assumes sq: "list_all (\<lambda>row. length row = length A) A"
  shows "\<exists>L. mat_cholesky A = Inr L \<and> chol_inv A (length A) 0 L"
  unfolding mat_cholesky_def Let_def
proof (rule for_each_upt_inv[where I = "\<lambda>i L. chol_inv A i 0 L"])
  show "chol_inv A 0 0 (replicate (length A) (replicate (length A) 0))" by (rule chol_inv_init)
next
  fix k s assume "k < length A" "chol_inv A k 0 s"
  from chol_row[OF sq this(2) this(1)]
  show "\<exists>s'. for_each [0..<k + 1] (cholesky_step A k) s = Inr s' \<and> chol_inv A (Suc k) 0 s'" .
qed

text \<open>
  Claim C5. On a square matrix \<open>mat_cholesky\<close> always returns, and returns an \<open>n \<times> n\<close>
  matrix: a diagonal entry is 0 when \<open>A[i][i]\<close> minus the partial sum is not positive
  (the square root of it otherwise), an entry below a zero pivot \<open>L[j][j]\<close> is left at
  0 and no division by zero takes place, and the entries above the diagonal are 0.
\<close>

theorem mat_cholesky_never_fails:
  assumes "list_all (\<lambda>row. length row = length A) A"
  shows "\<exists>L. mat_cholesky A = Inr L
           \<and> length L = length A \<and> list_all (\<lambda>row. length row = length A) L
           \<and> (\<forall>i<length A. L ! i ! i =
                  (if A ! i ! i - chol_sum L i i > 0 then sqrt (A ! i ! i - chol_sum L i i) else 0))
           \<and> (\<forall>i<length A. \<forall>j<i. L ! i ! j =
                  (if L ! j ! j = 0 then 0 else 1 / L ! j ! j * (A ! i ! j - chol_sum L i j)))
           \<and> (\<forall>i<length A. \<forall>j<length A. i < j \<longrightarrow> L ! i ! j = 0)"
proof -
  from mat_cholesky_inv[OF assms] obtain L where
    L: "mat_cholesky A = Inr L" and inv: "chol_inv A (length A) 0 L" by blast
  have len: "length L = length A" and rowlen: "\<And>i. i < length A \<Longrightarrow> length (L ! i) = length A"
    and cells: "\<And>i j. i < length A \<Longrightarrow> j < length A \<Longrightarrow> L ! i ! j = chol_entry A L i j"
    using inv by (auto simp: chol_inv_def)
  have 1: "list_all (\<lambda>row. length row = length A) L"
    using len rowlen by (simp add: list_all_length)
  have 2: "\<forall>i<length A. L ! i ! i =
                  (if A ! i ! i - chol_sum L i i > 0 then sqrt (A ! i ! i - chol_sum L i i) else 0)"
    using cells by (simp add: chol_entry_def)
  have 3: "\<forall>i<length A. \<forall>j<i. L ! i ! j =
                  (if L ! j ! j = 0 then 0 else 1 / L ! j ! j * (A ! i ! j - chol_sum L i j))"
  proof (intro allI impI)
    fix i j assume "i < length A" "j < i"
    then show "L ! i ! j = (if L ! j ! j = 0 then 0 else 1 / L ! j ! j * (A ! i ! j - chol_sum L i j))"
      using cells[of i j] by (simp add: chol_entry_def)
  qed
  have 4: "\<forall>i<length A. \<forall>j<length A. i < j \<longrightarrow> L ! i ! j = 0"
    using cells by (simp add: chol_entry_def)
  from L len 1 2 3 4 show ?thesis by blast
qed

theorem mat_cholesky_never_fails_witness:
  "list_all (\<lambda>row. length row = length [[4, 2], [2, 5::real]]) [[4, 2], [2, 5::real]]
   \<and> (\<exists>L. mat_cholesky [[4, 2], [2, 5]] = Inr L \<and> length L = length [[4, 2], [2, 5::real]])
   \<and> mat_cholesky [[4, 2], [2, 5]] = Inr [[2, 0], [1, 2]]
   \<and> list_all (\<lambda>row. length row = length [[0, 1], [1, -1::real]]) [[0, 1], [1, -1::real]]
   \<and> (\<exists>L. mat_cholesky [[0, 1], [1, -1]] = Inr L \<and> length L = length [[0, 1], [1, -1::real]])
   \<and> mat_cholesky [[0, 1], [1, -1]] = Inr [[0, 0], [0, 0]]"
proof -
  have a: "list_all (\<lambda>row. length row = length [[4, 2], [2, 5::real]]) [[4, 2], [2, 5::real]]"
    by simp
  have b: "list_all (\<lambda>row. length row = length [[0, 1], [1, -1::real]]) [[0, 1], [1, -1::real]]"
    by simp
  from mat_cholesky_never_fails[OF a]
  have 1: "\<exists>L. mat_cholesky [[4, 2], [2, 5]] = Inr L \<and> length L = length [[4, 2], [2, 5::real]]"
    by blast
  from mat_cholesky_never_fails[OF b]
  have 2: "\<exists>L. mat_cholesky [[0, 1], [1, -1]] = Inr L \<and> length L = length [[0, 1], [1, -1::real]]"
    by blast
  have 3: "mat_cholesky [[4, 2], [2, 5]] = Inr [[2, 0], [1, 2]]"
    by (simp add: mat_cholesky_def cholesky_step_def elem_at_def js_div_def Let_def upt_conv_Cons)
  have 4: "mat_cholesky [[0, 1], [1, -1]] = Inr [[0, 0], [0, 0]]"
    by (simp add: mat_cholesky_def cholesky_step_def elem_at_def js_div_def Let_def upt_conv_Cons)
  from a b 1 2 3 4 show ?thesis by blast
qed

section \<open>Properties of the low-pass filter\<close>

lemma applyLowPassFilter_first:
  "previousEstimate flt = None \<Longrightarrow>
   applyLowPassFilter flt m alpha = (m, \<lparr>previousEstimate = Some m\<rparr>)"
  by (simp add: applyLowPassFilter_def)

lemma applyLowPassFilter_next:
  "previousEstimate flt = Some prev \<Longrightarrow>
   applyLowPassFilter flt m alpha =
     (\<lparr>coord_x = alpha * coord_x m + (1 - alpha) * coord_x prev,
       coord_y = alpha * coord_y m + (1 - alpha) * coord_y prev\<rparr>,
      \<lparr>previousEstimate =
         Some \<lparr>coord_x = alpha * coord_x m + (1 - alpha) * coord_x prev,
               coord_y = alpha * coord_y m + (1 - alpha) * coord_y prev\<rparr>\<rparr>)"
  by (simp add: applyLowPassFilter_def Let_def)

lemma lowPassRun_alpha_zero:
  "previousEstimate flt = Some prev \<Longrightarrow>
   lowPassRun flt 0 ms = (replicate (length ms) prev, \<lparr>previousEstimate = Some prev\<rparr>)"
proof (induction ms arbitrary: flt)
  case Nil
  then show ?case by (cases flt) simp
next
  case (Cons m ms)
  have step: "applyLowPassFilter flt m 0 = (prev, \<lparr>previousEstimate = Some prev\<rparr>)"
    using Cons.prems by (simp add: applyLowPassFilter_next)
  have "lowPassRun \<lparr>previousEstimate = Some prev\<rparr> 0 ms =
          (replicate (length ms) prev, \<lparr>previousEstimate = Some prev\<rparr>)"
    by (rule Cons.IH) simp
  with step show ?case by simp
qed

text \<open>
  Claim C6. Low-pass \<^verbatim>\<open>apply\<close>: with no previous estimate the measurement is returned
  unchanged and becomes the previous estimate of the returned state; otherwise the
  estimate is \<open>alpha * measurement + (1 - alpha) * previous_estimate\<close> on each of x and y,
  and the returned state carries it. With \<open>alpha = 0.5\<close>, feeding (100,100) and then
  (200,200) to a new filter yields (150,150); with \<open>alpha = 1\<close> the estimate is always
  the latest measurement.
\<close>

theorem applyLowPassFilter_spec:
  "(previousEstimate flt = None \<longrightarrow>
      applyLowPassFilter flt m alpha = (m, \<lparr>previousEstimate = Some m\<rparr>))
   \<and> (\<forall>prev. previousEstimate flt = Some prev \<longrightarrow>
      applyLowPassFilter flt m alpha =
        (\<lparr>coord_x = alpha * coord_x m + (1 - alpha) * coord_x prev,
          coord_y = alpha * coord_y m + (1 - alpha) * coord_y prev\<rparr>,
         \<lparr>previousEstimate =
            Some \<lparr>coord_x = alpha * coord_x m + (1 - alpha) * coord_x prev,
                  coord_y = alpha * coord_y m + (1 - alpha) * coord_y prev\<rparr>\<rparr>))
   \<and> fst (lowPassRun initialLowPassFilter (1/2)
             [\<lparr>coord_x = 100, coord_y = 100\<rparr>, \<lparr>coord_x = 200, coord_y = 200\<rparr>])
       = [\<lparr>coord_x = 100, coord_y = 100\<rparr>, \<lparr>coord_x = 150, coord_y = 150\<rparr>]
   \<and> fst (applyLowPassFilter flt m 1) = m"
proof (intro conjI)
  show "previousEstimate flt = None \<longrightarrow>
      applyLowPassFilter flt m alpha = (m, \<lparr>previousEstimate = Some m\<rparr>)"
    by (simp add: applyLowPassFilter_first)
  show "\<forall>prev. previousEstimate flt = Some prev \<longrightarrow>
      applyLowPassFilter flt m alpha =
        (\<lparr>coord_x = alpha * coord_x m + (1 - alpha) * coord_x prev,
          coord_y = alpha * coord_y m + (1 - alpha) * coord_y prev\<rparr>,
         \<lparr>previousEstimate =
            Some \<lparr>coord_x = alpha * coord_x m + (1 - alpha) * coord_x prev,
                  coord_y = alpha * coord_y m + (1 - alpha) * coord_y prev\<rparr>\<rparr>)"
    by (simp add: applyLowPassFilter_next)
  show "fst (lowPassRun initialLowPassFilter (1/2)
             [\<lparr>coord_x = 100, coord_y = 100\<rparr>, \<lparr>coord_x = 200, coord_y = 200\<rparr>])
       = [\<lparr>coord_x = 100, coord_y = 100\<rparr>, \<lparr>coord_x = 150, coord_y = 150\<rparr>]"
    by (simp add: initialLowPassFilter_def applyLowPassFilter_def Let_def)
  show "fst (applyLowPassFilter flt m 1) = m"
    by (cases "previousEstimate flt") (simp_all add: applyLowPassFilter_def Let_def)
qed

theorem applyLowPassFilter_spec_witness:
  "previousEstimate \<lparr>previousEstimate = Some \<lparr>coord_x = 100, coord_y = 100\<rparr>\<rparr>
     = Some \<lparr>coord_x = 100, coord_y = 100\<rparr>
   \<and> applyLowPassFilter \<lparr>previousEstimate = Some \<lparr>coord_x = 100, coord_y = 100\<rparr>\<rparr>
        \<lparr>coord_x = 200, coord_y = 200\<rparr> (1/2)
       = (\<lparr>coord_x = 150, coord_y = 150\<rparr>,
          \<lparr>previousEstimate = Some \<lparr>coord_x = 150, coord_y = 150\<rparr>\<rparr>)
   \<and> previousEstimate initialLowPassFilter = None
   \<and> applyLowPassFilter initialLowPassFilter \<lparr>coord_x = 100, coord_y = 100\<rparr> (1/2)
       = (\<lparr>coord_x = 100, coord_y = 100\<rparr>,
          \<lparr>previousEstimate = Some \<lparr>coord_x = 100, coord_y = 100\<rparr>\<rparr>)"
  using applyLowPassFilter_spec
          [of "\<lparr>previousEstimate = Some \<lparr>coord_x = 100, coord_y = 100\<rparr>\<rparr>"
              "\<lparr>coord_x = 200, coord_y = 200\<rparr>" "1/2"]
        applyLowPassFilter_spec
          [of initialLowPassFilter "\<lparr>coord_x = 100, coord_y = 100\<rparr>" "1/2"]
  by (simp add: initialLowPassFilter_def)

text \<open>
  Claim C9. \<^verbatim>\<open>applyLowPassFilter\<close> performs no validation of \<open>alpha\<close>: for every real
  \<open>alpha\<close> (zero, negative and above one included) a call on an initialised state
  returns \<open>alpha * measurement + (1 - alpha) * previous_estimate\<close> on each component;
  with \<open>alpha = 0\<close> every call of a run returns the previous estimate and leaves the
  state as it was; the first call returns the same result whatever \<open>alpha\<close> is.
\<close>

theorem applyLowPassFilter_total_in_alpha:
  "(\<forall>prev. previousEstimate flt = Some prev \<longrightarrow>
      fst (applyLowPassFilter flt m alpha) =
        \<lparr>coord_x = alpha * coord_x m + (1 - alpha) * coord_x prev,
         coord_y = alpha * coord_y m + (1 - alpha) * coord_y prev\<rparr>)
   \<and> (\<forall>prev. previousEstimate flt = Some prev \<longrightarrow>
        lowPassRun flt 0 ms =
          (replicate (length ms) prev, \<lparr>previousEstimate = Some prev\<rparr>))
   \<and> (previousEstimate flt = None \<longrightarrow>
        applyLowPassFilter flt m alpha = applyLowPassFilter flt m alpha'
        \<and> fst (applyLowPassFilter flt m alpha) = m)"
  by (simp add: applyLowPassFilter_next applyLowPassFilter_first lowPassRun_alpha_zero)

theorem applyLowPassFilter_total_in_alpha_witness:
  "previousEstimate \<lparr>previousEstimate = Some \<lparr>coord_x = 50, coord_y = 50\<rparr>\<rparr>
     = Some \<lparr>coord_x = 50, coord_y = 50\<rparr>
   \<and> fst (applyLowPassFilter \<lparr>previousEstimate = Some \<lparr>coord_x = 50, coord_y = 50\<rparr>\<rparr>
        \<lparr>coord_x = 100, coord_y = 100\<rparr> (-2)) = \<lparr>coord_x = -50, coord_y = -50\<rparr>
   \<and> lowPassRun \<lparr>previousEstimate = Some \<lparr>coord_x = 50, coord_y = 50\<rparr>\<rparr> 0
        [\<lparr>coord_x = 100, coord_y = 100\<rparr>, \<lparr>coord_x = 7, coord_y = 9\<rparr>]
       = ([\<lparr>coord_x = 50, coord_y = 50\<rparr>, \<lparr>coord_x = 50, coord_y = 50\<rparr>],
          \<lparr>previousEstimate = Some \<lparr>coord_x = 50, coord_y = 50\<rparr>\<rparr>)
   \<and> previousEstimate initialLowPassFilter = None
   \<and> fst (applyLowPassFilter initialLowPassFilter \<lparr>coord_x = 100, coord_y = 100\<rparr> 3)
       = \<lparr>coord_x = 100, coord_y = 100\<rparr>"
  using applyLowPassFilter_total_in_alpha
          [of "\<lparr>previousEstimate = Some \<lparr>coord_x = 50, coord_y = 50\<rparr>\<rparr>"
              "\<lparr>coord_x = 100, coord_y = 100\<rparr>" "-2"
              "[\<lparr>coord_x = 100, coord_y = 100\<rparr>, \<lparr>coord_x = 7, coord_y = 9\<rparr>]" 0]
        applyLowPassFilter_total_in_alpha
          [of initialLowPassFilter "\<lparr>coord_x = 100, coord_y = 100\<rparr>" 3 "[]" 3]
  by (simp add: initialLowPassFilter_def)

section \<open>Properties of the Kalman filter\<close>

lemma kalman_first_step:
  "2 + q + r \<noteq> 0 \<Longrightarrow>
   kalman_predict_update [[coord_x m], [coord_y m], [0], [0]]
     [[1, 0, 0, 0], [0, 1, 0, 0], [0, 0, 1, 0], [0, 0, 0, 1]]
     [[1, 0, 1, 0], [0, 1, 0, 1], [0, 0, 1, 0], [0, 0, 0, 1]]
     [[1, 0, 0, 0], [0, 1, 0, 0]]
     [[q, 0, 0, 0], [0, q, 0, 0], [0, 0, q, 0], [0, 0, 0, q]] [[r, 0], [0, r]] m
   = Inr ([[coord_x m], [coord_y m], [0], [0]], kalman_P1 q r, m)"
  by (simp add: kalman_predict_update_def mat_eval Let_def mat_inv_2x2_def js_div_def kalman_P1_def)

lemma initialKalmanFilter_eval:
  "initialKalmanFilter q r h =
     (\<lparr>k_x = length h, k_P = length h + 1, k_A = length h + 2, k_H = length h + 3,
       k_Q = length h + 4, k_R = length h + 5, firstRun = True, k_lastTimestamp = None\<rparr>,
      h @ [[[0], [0], [0], [0]],
           [[1, 0, 0, 0], [0, 1, 0, 0], [0, 0, 1, 0], [0, 0, 0, 1]],
           [[1, 0, 1, 0], [0, 1, 0, 1], [0, 0, 1, 0], [0, 0, 0, 1]],
           [[1, 0, 0, 0], [0, 1, 0, 0]],
           [[q, 0, 0, 0], [0, q, 0, 0], [0, 0, q, 0], [0, 0, 0, q]],
           [[r, 0], [0, r]]])"
  by (simp add: initialKalmanFilter_def alloc_def Let_def mat_identity_4 mat_identity_2 mat_scalar_mul_def)

lemma applyKalmanFilter_first:
  assumes "2 + q + r \<noteq> 0"
  shows "applyKalmanFilter (fst (initialKalmanFilter q r h)) m now (snd (initialKalmanFilter q r h))
     = (Inr (m, (fst (initialKalmanFilter q r h))
                  \<lparr>k_x := length h + 6, k_P := length h + 7, firstRun := False,
                   k_lastTimestamp := Some now\<rparr>),
        snd (initialKalmanFilter q r h) @ [[[coord_x m], [coord_y m], [0], [0]], kalman_P1 q r])"
  unfolding initialKalmanFilter_eval fst_conv snd_conv
  by (simp add: applyKalmanFilter_def time_step_def store_def put_def alloc_def Let_def
        kalman_first_step[OF assms] list_update_append nth_append)


lemma applyKalmanFilter_A_after:
  assumes "k_A flt < length h" and "1 < length (h ! k_A flt)"
    and "2 < length (h ! k_A flt ! 0)" and "3 < length (h ! k_A flt ! 1)"
  shows "snd (applyKalmanFilter flt m now h) ! k_A flt =
           (h ! k_A flt)
             [0 := (h ! k_A flt ! 0)[2 := time_step (k_lastTimestamp flt) now],
              1 := (h ! k_A flt ! 1)[3 := time_step (k_lastTimestamp flt) now]]"
  using assms
  by (simp add: applyKalmanFilter_def store_def put_def alloc_def Let_def nth_append
        split: sum.splits prod.splits)

text \<open>
  Claim C2. For the Kalman state built by \<open>initialKalmanFilter q r\<close> with \<open>q \<ge> 0\<close> and
  \<open>r \<ge> 0\<close> (first run, no previous timestamp, so \<open>dt = 1\<close>), the first call succeeds and
  the estimate it returns is the measurement itself, in both components.
\<close>

theorem applyKalmanFilter_first_estimate:
  assumes "0 \<le> q" and "0 \<le> r"
  shows "firstRun (fst (initialKalmanFilter q r h))
       \<and> k_lastTimestamp (fst (initialKalmanFilter q r h)) = None
       \<and> time_step (k_lastTimestamp (fst (initialKalmanFilter q r h))) now = 1
       \<and> (\<exists>flt' h'. applyKalmanFilter (fst (initialKalmanFilter q r h)) m now
                        (snd (initialKalmanFilter q r h)) = (Inr (m, flt'), h'))"
proof -
  from assms have nz: "2 + q + r \<noteq> 0" by simp
  have "\<exists>flt' h'. applyKalmanFilter (fst (initialKalmanFilter q r h)) m now
                        (snd (initialKalmanFilter q r h)) = (Inr (m, flt'), h')"
    unfolding applyKalmanFilter_first[OF nz] by blast
  then show ?thesis by (simp add: initialKalmanFilter_eval time_step_def)
qed

theorem applyKalmanFilter_first_estimate_witness:
  "(0::real) \<le> 1/10 \<and> (0::real) \<le> 4
   \<and> (\<exists>flt' h'. applyKalmanFilter (fst (initialKalmanFilter (1/10) 4 []))
                    \<lparr>coord_x = 100, coord_y = 200\<rparr> 1000
                    (snd (initialKalmanFilter (1/10) 4 []))
                  = (Inr (\<lparr>coord_x = 100, coord_y = 200\<rparr>, flt'), h'))"
proof -
  have a: "(0::real) \<le> 1/10" and b: "(0::real) \<le> 4" by simp_all
  from applyKalmanFilter_first_estimate[OF a b, of "[]" 1000 "\<lparr>coord_x = 100, coord_y = 200\<rparr>"]
  have "\<exists>flt' h'. applyKalmanFilter (fst (initialKalmanFilter (1/10) 4 []))
                    \<lparr>coord_x = 100, coord_y = 200\<rparr> 1000
                    (snd (initialKalmanFilter (1/10) 4 []))
                  = (Inr (\<lparr>coord_x = 100, coord_y = 200\<rparr>, flt'), h')"
    by blast
  with a b show ?thesis by blast
qed

section \<open>Properties of the unscented Kalman filter\<close>

lemma initialUKF_weights_m:
  "weights_m (fst (initialUKF q r h)) = [-9999, 1000, 1000, 1000, 1000, 1000, 1000, 1000, 1000, 1000, 1000]"
  by (simp add: initialUKF_def Let_def alloc_def upt_conv_Cons eval_nat_numeral split_def)

lemma initialUKF_consts:
  "u_n (fst (initialUKF q r h)) = 5" "u_m (fst (initialUKF q r h)) = 2"
  "u_alpha (fst (initialUKF q r h)) = 1/100" "u_beta (fst (initialUKF q r h)) = 2"
  "u_kappa (fst (initialUKF q r h)) = 0" "u_lambda (fst (initialUKF q r h)) = -49995/10000"
  "u_lastTimestamp (fst (initialUKF q r h)) = None" "lastMeasurement (fst (initialUKF q r h)) = None"
  "u_Q (fst (initialUKF q r h)) = length h" "u_x (fst (initialUKF q r h)) = length h + 1"
  "u_P (fst (initialUKF q r h)) = length h + 2" "u_R (fst (initialUKF q r h)) = length h + 3"
  by (simp_all add: initialUKF_def Let_def alloc_def split_def)

lemma initialUKF_heap:
  "snd (initialUKF q r h) =
     h @ [[[1/10, 0, 0, 0, 0], [0, 1/10, 0, 0, 0], [0, 0, q, 0, 0], [0, 0, 0, 1/10, 0],
           [0, 0, 0, 0, q]],
          [[0], [0], [0], [0], [0]],
          [[1, 0, 0, 0, 0], [0, 1, 0, 0, 0], [0, 0, 1, 0, 0], [0, 0, 0, 1, 0], [0, 0, 0, 0, 1]],
          [[r, 0], [0, r]]]"
  by (simp add: initialUKF_def Let_def alloc_def split_def mat_identity_5 mat_identity_2
        mat_scalar_mul_def)

lemma applyUKF_first:
  "applyUKF (fst (initialUKF q r h)) m now (snd (initialUKF q r h))
     = (Inr (m, (fst (initialUKF q r h))
                  \<lparr>u_lastTimestamp := Some now, lastMeasurement := Some m\<rparr>),
        (snd (initialUKF q r h))
          [u_x (fst (initialUKF q r h)) := [[coord_x m], [coord_y m], [0], [0], [0]]])"
  by (simp add: applyUKF_def initialUKF_consts initialUKF_heap store_def put_def elem_at_def
        Let_def list_update_append nth_append)

lemma interval_1_10:
  "(\<forall>i\<in>{1..10::nat}. P i) = (P 1 \<and> P 2 \<and> P 3 \<and> P 4 \<and> P 5 \<and> P 6 \<and> P 7 \<and> P 8 \<and> P 9 \<and> P 10)"
proof
  assume "\<forall>i\<in>{1..10::nat}. P i"
  then show "P 1 \<and> P 2 \<and> P 3 \<and> P 4 \<and> P 5 \<and> P 6 \<and> P 7 \<and> P 8 \<and> P 9 \<and> P 10" by simp
next
  assume a: "P 1 \<and> P 2 \<and> P 3 \<and> P 4 \<and> P 5 \<and> P 6 \<and> P 7 \<and> P 8 \<and> P 9 \<and> P 10"
  show "\<forall>i\<in>{1..10::nat}. P i"
  proof
    fix i :: nat assume "i \<in> {1..10}"
    then have "i = 1 \<or> i = 2 \<or> i = 3 \<or> i = 4 \<or> i = 5 \<or> i = 6 \<or> i = 7 \<or> i = 8 \<or> i = 9 \<or> i = 10"
      by (simp only: atLeastAtMost_iff) arith
    with a show "P i" by blast
  qed
qed

text \<open>
  Claim C8. The state built by \<open>initialUKF\<close> has \<open>n = 5\<close>, \<open>alpha = 0.01\<close>, \<open>beta = 2\<close>,
  \<open>kappa = 0\<close> and \<open>lambda = alpha\<^sup>2 * (n + kappa) - n\<close>; its 11 mean weights are
  \<open>lambda / (n + lambda)\<close> at index 0 and \<open>1 / (2 * (n + lambda))\<close> at indices 1 to 10,
  and their sum, added up from 0 in index order, is 1 (exactly so in real arithmetic).
\<close>

theorem initialUKF_weights:
  "u_n (fst (initialUKF q r h)) = 5
   \<and> u_alpha (fst (initialUKF q r h)) = 1/100
   \<and> u_beta (fst (initialUKF q r h)) = 2
   \<and> u_kappa (fst (initialUKF q r h)) = 0
   \<and> u_lambda (fst (initialUKF q r h)) =
        u_alpha (fst (initialUKF q r h)) * u_alpha (fst (initialUKF q r h))
          * (real (u_n (fst (initialUKF q r h))) + u_kappa (fst (initialUKF q r h)))
        - real (u_n (fst (initialUKF q r h)))
   \<and> length (weights_m (fst (initialUKF q r h))) = 11
   \<and> weights_m (fst (initialUKF q r h)) ! 0 =
        u_lambda (fst (initialUKF q r h))
          / (real (u_n (fst (initialUKF q r h))) + u_lambda (fst (initialUKF q r h)))
   \<and> (\<forall>i\<in>{1..10}. weights_m (fst (initialUKF q r h)) ! i =
        1 / (2 * (real (u_n (fst (initialUKF q r h))) + u_lambda (fst (initialUKF q r h)))))
   \<and> foldl (+) 0 (weights_m (fst (initialUKF q r h))) = 1"
  unfolding interval_1_10
  by (simp add: initialUKF_weights_m initialUKF_consts)

theorem initialUKF_weights_witness:
  "(3::nat) \<in> {1..10}
   \<and> weights_m (fst (initialUKF (1/10) 4 [])) ! 3 =
        1 / (2 * (real (u_n (fst (initialUKF (1/10) 4 []))) + u_lambda (fst (initialUKF (1/10) 4 []))))
   \<and> weights_m (fst (initialUKF (1/10) 4 [])) ! 3 = 1000
   \<and> weights_m (fst (initialUKF (1/10) 4 [])) ! 0 = - 9999"
proof -
  have a: "(3::nat) \<in> {1..10}" by simp
  from initialUKF_weights[of "1/10" 4 "[]"] a
  have 1: "weights_m (fst (initialUKF (1/10) 4 [])) ! 3 =
        1 / (2 * (real (u_n (fst (initialUKF (1/10) 4 []))) + u_lambda (fst (initialUKF (1/10) 4 []))))"
    by blast
  have 2: "weights_m (fst (initialUKF (1/10) 4 [])) ! 3 = 1000"
    by (simp add: initialUKF_weights_m)
  have 3: "weights_m (fst (initialUKF (1/10) 4 [])) ! 0 = - 9999"
    by (simp add: initialUKF_weights_m)
  from a 1 2 3 show ?thesis by blast
qed

text \<open>
  Claim C7. The first \<open>applyUKF\<close> call on the state built by \<open>initialUKF q r\<close> (no last
  measurement) returns the measurement itself as the estimate and the input state with
  only \<open>lastTimestamp\<close> and \<open>lastMeasurement\<close> replaced; in the store only the matrix
  \<open>x\<close> changes, to the measured position with speed, heading and turn rate 0, and
  \<open>P\<close>, \<open>Q\<close> and \<open>R\<close> are as before: the filter recursion has not run.
\<close>

theorem applyUKF_first_call:
  "applyUKF (fst (initialUKF q r h)) m now (snd (initialUKF q r h))
     = (Inr (m, (fst (initialUKF q r h))
                  \<lparr>u_lastTimestamp := Some now, lastMeasurement := Some m\<rparr>),
        (snd (initialUKF q r h))
          [u_x (fst (initialUKF q r h)) := [[coord_x m], [coord_y m], [0], [0], [0]]])
   \<and> lastMeasurement (fst (initialUKF q r h)) = None
   \<and> snd (initialUKF q r h) ! u_x (fst (initialUKF q r h)) = [[0], [0], [0], [0], [0]]
   \<and> (snd (initialUKF q r h))
          [u_x (fst (initialUKF q r h)) := [[coord_x m], [coord_y m], [0], [0], [0]]]
        ! u_P (fst (initialUKF q r h)) = snd (initialUKF q r h) ! u_P (fst (initialUKF q r h))
   \<and> (snd (initialUKF q r h))
          [u_x (fst (initialUKF q r h)) := [[coord_x m], [coord_y m], [0], [0], [0]]]
        ! u_Q (fst (initialUKF q r h)) = snd (initialUKF q r h) ! u_Q (fst (initialUKF q r h))
   \<and> (snd (initialUKF q r h))
          [u_x (fst (initialUKF q r h)) := [[coord_x m], [coord_y m], [0], [0], [0]]]
        ! u_R (fst (initialUKF q r h)) = snd (initialUKF q r h) ! u_R (fst (initialUKF q r h))"
proof (intro conjI)
  show "applyUKF (fst (initialUKF q r h)) m now (snd (initialUKF q r h))
     = (Inr (m, (fst (initialUKF q r h))
                  \<lparr>u_lastTimestamp := Some now, lastMeasurement := Some m\<rparr>),
        (snd (initialUKF q r h))
          [u_x (fst (initialUKF q r h)) := [[coord_x m], [coord_y m], [0], [0], [0]]])"
    by (rule applyUKF_first)
qed (simp_all add: initialUKF_consts initialUKF_heap nth_append list_update_append)

lemma applyUKF_no_seed_when_falsy:
  assumes "lastMeasurement flt = Some lastM" and "\<not> truthy (u_lastTimestamp flt)"
    and "u_x flt < length h"
  shows "snd (applyUKF flt m now h) ! u_x flt = h ! u_x flt"
  using assms
  by (simp add: applyUKF_def ukf_bootstrap_def alloc_def Let_def nth_append
        split: sum.splits prod.splits)

lemma ukf_bootstrap_seeds:
  assumes "u_lastTimestamp flt = Some t" and "t \<noteq> 0" and "now \<noteq> t"
    and "u_x flt < length h" and "3 < length (h ! u_x flt)" and "h ! u_x flt ! 2 \<noteq> []" and "h ! u_x flt ! 3 \<noteq> []"
    and "h ! u_x flt ! 2 ! 0 = 0"
  shows "ukf_bootstrap flt m lastM (time_step (u_lastTimestamp flt) now) h =
     (Inr (),
      h[u_x flt := (h ! u_x flt)
          [2 := (h ! u_x flt ! 2)
                  [0 := sqrt ((coord_x m - coord_x lastM) * (coord_x m - coord_x lastM)
                              + (coord_y m - coord_y lastM) * (coord_y m - coord_y lastM))
                        / (real_of_int (now - t) / 15)],
           3 := (h ! u_x flt ! 3)
                  [0 := atan2 (coord_y m - coord_y lastM) (coord_x m - coord_x lastM)]]])"
  using assms
  by (simp add: ukf_bootstrap_def truthy_def time_step_def js_div_def store_def put_def Let_def)


text \<open>
  The seed of speed and heading when the last timestamp is truthy. On a call with a
  last measurement, a last timestamp other than 0, an elapsed time other than 0 and a
  stored speed \<open>x[2][0]\<close> of exactly 0 (whichever call it is, the second or a later
  one), \<open>applyUKF\<close> first writes \<open>speed = |measurement - last_measurement| / dt\<close> and
  \<open>heading = atan2 dy dx\<close> into \<open>x\<close> and then runs the whole predict/update cycle on
  the seeded \<open>x\<close> in that same call.
\<close>

theorem applyUKF_reseeds_when_velocity_zero:
  assumes "lastMeasurement flt = Some lastM"
    and "u_lastTimestamp flt = Some t" and "t \<noteq> 0" and "now \<noteq> t"
    and "u_x flt < length h" and "3 < length (h ! u_x flt)"
    and "h ! u_x flt ! 2 \<noteq> []" and "h ! u_x flt ! 3 \<noteq> []"
    and "h ! u_x flt ! 2 ! 0 = 0"
  shows
    "(let dt = real_of_int (now - t) / 15;
          dx = coord_x m - coord_x lastM;
          dy = coord_y m - coord_y lastM;
          seeded = (h ! u_x flt)[2 := (h ! u_x flt ! 2)[0 := sqrt (dx * dx + dy * dy) / dt],
                                 3 := (h ! u_x flt ! 3)[0 := atan2 dy dx]];
          h1 = h[u_x flt := seeded]
      in applyUKF flt m now h =
           (case ukf_cycle (h1 ! u_x flt) (h1 ! u_P flt) (h1 ! u_Q flt) (h1 ! u_R flt)
                   (u_n flt) (u_m flt) (u_lambda flt) (weights_m flt) (weights_c flt) dt m of
              Inl e \<Rightarrow> (Inl e, h1)
            | Inr (x_new, P_new, est) \<Rightarrow>
                (Inr (est, flt\<lparr>u_x := length h1, u_P := length h1 + 1,
                                  u_lastTimestamp := Some now, lastMeasurement := Some m\<rparr>),
                 h1 @ [x_new, P_new]))
         \<and> h1 ! u_x flt = seeded
         \<and> seeded ! 2 ! 0 = sqrt (dx * dx + dy * dy) / dt
         \<and> seeded ! 3 ! 0 = atan2 dy dx
         \<and> snd (applyUKF flt m now h) ! u_x flt = seeded)"
proof -
  define dt where "dt = real_of_int (now - t) / 15"
  define dx where "dx = coord_x m - coord_x lastM"
  define dy where "dy = coord_y m - coord_y lastM"
  define seeded where
    "seeded = (h ! u_x flt)[2 := (h ! u_x flt ! 2)[0 := sqrt (dx * dx + dy * dy) / dt],
                            3 := (h ! u_x flt ! 3)[0 := atan2 dy dx]]"
  define h1 where "h1 = h[u_x flt := seeded]"
  have ts: "time_step (u_lastTimestamp flt) now = dt"
    using assms(2,3) by (simp add: time_step_def dt_def)
  have seed: "ukf_bootstrap flt m lastM dt h = (Inr (), h1)"
    using ukf_bootstrap_seeds[OF assms(2-9), of m lastM]
    unfolding ts h1_def seeded_def dx_def dy_def dt_def .
  have a: "applyUKF flt m now h =
           (case ukf_cycle (h1 ! u_x flt) (h1 ! u_P flt) (h1 ! u_Q flt) (h1 ! u_R flt)
                   (u_n flt) (u_m flt) (u_lambda flt) (weights_m flt) (weights_c flt) dt m of
              Inl e \<Rightarrow> (Inl e, h1)
            | Inr (x_new, P_new, est) \<Rightarrow>
                (Inr (est, flt\<lparr>u_x := length h1, u_P := length h1 + 1,
                                  u_lastTimestamp := Some now, lastMeasurement := Some m\<rparr>),
                 h1 @ [x_new, P_new]))"
    by (simp add: applyUKF_def Let_def ts assms(1) seed alloc_def split: sum.splits prod.splits)
  have len: "u_x flt < length h1" using assms(5) by (simp add: h1_def)
  have b: "h1 ! u_x flt = seeded" using assms(5) by (simp add: h1_def)
  have c: "seeded ! 2 ! 0 = sqrt (dx * dx + dy * dy) / dt"
    using assms(6,7) by (simp add: seeded_def)
  have d: "seeded ! 3 ! 0 = atan2 dy dx"
    using assms(6,8) by (simp add: seeded_def)
  have e: "snd (applyUKF flt m now h) ! u_x flt = seeded"
    unfolding a using len b by (simp add: nth_append split: sum.splits prod.splits)
  from a b c d e show ?thesis
    unfolding Let_def h1_def seeded_def dx_def dy_def dt_def by blast
qed

theorem applyUKF_reseeds_when_velocity_zero_witness:
  "lastMeasurement ((fst (initialUKF (1/10) 4 []))
       \<lparr>u_lastTimestamp := Some 1000, lastMeasurement := Some \<lparr>coord_x = 0, coord_y = 0\<rparr>\<rparr>)
     = Some \<lparr>coord_x = 0, coord_y = 0\<rparr>
   \<and> u_lastTimestamp ((fst (initialUKF (1/10) 4 []))
       \<lparr>u_lastTimestamp := Some 1000, lastMeasurement := Some \<lparr>coord_x = 0, coord_y = 0\<rparr>\<rparr>)
     = Some 1000
   \<and> (1000::int) \<noteq> 0 \<and> (1015::int) \<noteq> 1000
   \<and> snd (initialUKF (1/10) 4 []) ! u_x (fst (initialUKF (1/10) 4 []))
     = [[0], [0], [0], [0], [0]]
   \<and> snd (applyUKF ((fst (initialUKF (1/10) 4 []))
              \<lparr>u_lastTimestamp := Some 1000,
               lastMeasurement := Some \<lparr>coord_x = 0, coord_y = 0\<rparr>\<rparr>)
            \<lparr>coord_x = 2, coord_y = 0\<rparr> 1015 (snd (initialUKF (1/10) 4 [])))
       ! u_x (fst (initialUKF (1/10) 4 []))
     = [[0], [0], [2], [0], [0]]"
proof -
  let ?f = "(fst (initialUKF (1/10) 4 []))
       \<lparr>u_lastTimestamp := Some 1000, lastMeasurement := Some \<lparr>coord_x = 0, coord_y = 0\<rparr>\<rparr>"
  let ?h = "snd (initialUKF (1/10) 4 [])"
  have a: "lastMeasurement ?f = Some \<lparr>coord_x = 0, coord_y = 0\<rparr>" by simp
  have b: "u_lastTimestamp ?f = Some 1000" by simp
  have c: "(1000::int) \<noteq> 0" and d: "(1015::int) \<noteq> 1000" by simp_all
  have x: "?h ! u_x (fst (initialUKF (1/10) 4 [])) = [[0], [0], [0], [0], [0]]"
    by (simp add: initialUKF_consts initialUKF_heap)
  have ux: "u_x ?f = u_x (fst (initialUKF (1/10) 4 []))" by simp
  have e: "u_x ?f < length ?h" by (simp add: initialUKF_consts initialUKF_heap)
  have f: "3 < length (?h ! u_x ?f)" "?h ! u_x ?f ! 2 \<noteq> []" "?h ! u_x ?f ! 3 \<noteq> []"
    "?h ! u_x ?f ! 2 ! 0 = 0"
    unfolding ux x by simp_all
  from applyUKF_reseeds_when_velocity_zero[OF a b c d e f, of "\<lparr>coord_x = 2, coord_y = 0\<rparr>"]
  have "snd (applyUKF ?f \<lparr>coord_x = 2, coord_y = 0\<rparr> 1015 ?h) ! u_x ?f =
          (?h ! u_x ?f)
            [2 := (?h ! u_x ?f ! 2)
                    [0 := sqrt ((coord_x \<lparr>coord_x = 2, coord_y = 0\<rparr>
                                  - coord_x \<lparr>coord_x = 0, coord_y = 0\<rparr>)
                                * (coord_x \<lparr>coord_x = 2, coord_y = 0\<rparr>
                                  - coord_x \<lparr>coord_x = 0, coord_y = 0\<rparr>)
                                + (coord_y \<lparr>coord_x = 2, coord_y = 0\<rparr>
                                  - coord_y \<lparr>coord_x = 0, coord_y = 0\<rparr>)
                                * (coord_y \<lparr>coord_x = 2, coord_y = 0\<rparr>
                                  - coord_y \<lparr>coord_x = 0, coord_y = 0\<rparr>))
                          / (real_of_int (1015 - 1000) / 15)],
             3 := (?h ! u_x ?f ! 3)
                    [0 := atan2 (coord_y \<lparr>coord_x = 2, coord_y = 0\<rparr>
                                  - coord_y \<lparr>coord_x = 0, coord_y = 0\<rparr>)
                                (coord_x \<lparr>coord_x = 2, coord_y = 0\<rparr>
                                  - coord_x \<lparr>coord_x = 0, coord_y = 0\<rparr>)]]"
    unfolding Let_def by blast
  then have g: "snd (applyUKF ?f \<lparr>coord_x = 2, coord_y = 0\<rparr> 1015 ?h)
                  ! u_x (fst (initialUKF (1/10) 4 [])) = [[0], [0], [2], [0], [0]]"
    unfolding ux x by (simp add: atan2_def)
  from a b c d x g show ?thesis by blast
qed

text \<open>
  A run of three calls. The first two calls observe a target at rest at \<open>(100, 200)\<close>:
  the second call seeds speed 0, runs the whole cycle on the initial covariance (whose
  scaled Cholesky factor is \<open>sqrt (1/2000)\<close> times the identity) and returns the
  measurement as estimate, with the speed \<open>x[2][0]\<close> of the new state again exactly 0.
  The third call, to \<open>(102, 200)\<close> one tick later, therefore seeds again: speed 2,
  heading 0.
\<close>

lemma sqrt_2000_bound: "(1::real) / 10000 < sqrt (1 / 2000)"
proof -
  have "sqrt ((1 / 10000)\<^sup>2) < sqrt (1 / 2000 :: real)"
    by (subst real_sqrt_less_iff) (simp add: power2_eq_square)
  then show ?thesis by simp
qed

lemma mat_cholesky_initial_P:
  "mat_cholesky (mat_scalar_mul
      [[1, 0, 0, 0, 0], [0, 1, 0, 0, 0], [0, 0, 1, 0, 0], [0, 0, 0, 1, 0], [0, 0, 0, 0, 1]]
      (real 5 + (- (9999 / 2000))))
   = Inr [[sqrt (1/2000), 0, 0, 0, 0], [0, sqrt (1/2000), 0, 0, 0],
          [0, 0, sqrt (1/2000), 0, 0], [0, 0, 0, sqrt (1/2000), 0],
          [0, 0, 0, 0, sqrt (1/2000)]]"
  by (simp add: mat_cholesky_def cholesky_step_def elem_at_def js_div_def Let_def
        upt_conv_Cons mat_scalar_mul_def)

lemma ukf_cycle_stationary:
  "ukf_cycle [[p], [q], [0], [0], [0]]
     [[1, 0, 0, 0, 0], [0, 1, 0, 0, 0], [0, 0, 1, 0, 0], [0, 0, 0, 1, 0], [0, 0, 0, 0, 1]]
     [[1/10, 0, 0, 0, 0], [0, 1/10, 0, 0, 0], [0, 0, 1/10, 0, 0], [0, 0, 0, 1/10, 0],
      [0, 0, 0, 0, 1/10]]
     [[4, 0], [0, 4]] 5 2 (- (9999 / 2000))
     [- 9999, 1000, 1000, 1000, 1000, 1000, 1000, 1000, 1000, 1000, 1000]
     [- (99960001 / 10000), 1000, 1000, 1000, 1000, 1000, 1000, 1000, 1000, 1000, 1000]
     1 \<lparr>coord_x = p, coord_y = q\<rparr>
   = Inr ([[p], [q], [0], [0], [0]],
          [[43/30, 0, 2/3, 0, 0], [0, 9/10, 0, 0, 0], [2/3, 0, 14/15, 0, 0],
           [0, 0, 0, 21/10, 1], [0, 0, 0, 1, 11/10]],
          \<lparr>coord_x = p, coord_y = q\<rparr>)"
  unfolding ukf_cycle_def mat_cholesky_initial_P
  by (simp add: elem_at_def js_div_def Let_def upt_conv_Cons mat_scalar_mul_def
        sqrt_2000_bound mat_add_def mat_sub_def mat_mul_def mat_transpose_def
        predict_sigma_point_def weighted_mean_def weighted_cov_def weight_at_def
        mat_inv_2x2_def eval_nat_numeral)

lemma initialUKF_weights_c:
  "weights_c (fst (initialUKF q r h)) =
     [-9999 + (3 - 1/10000), 1000, 1000, 1000, 1000, 1000, 1000, 1000, 1000, 1000, 1000]"
  by (simp add: initialUKF_def Let_def alloc_def upt_conv_Cons eval_nat_numeral split_def)

lemma applyUKF_second_call_stationary:
  "applyUKF ((fst (initialUKF (1/10) 4 []))
               \<lparr>u_lastTimestamp := Some 1000, lastMeasurement := Some \<lparr>coord_x = p, coord_y = q\<rparr>\<rparr>)
            \<lparr>coord_x = p, coord_y = q\<rparr> 1015
            ((snd (initialUKF (1/10) 4 []))[u_x (fst (initialUKF (1/10) 4 []))
                                              := [[p], [q], [0], [0], [0]]])
   = (Inr (\<lparr>coord_x = p, coord_y = q\<rparr>,
           (fst (initialUKF (1/10) 4 []))
               \<lparr>u_x := 4, u_P := 5, u_lastTimestamp := Some 1015,
                lastMeasurement := Some \<lparr>coord_x = p, coord_y = q\<rparr>\<rparr>),
      (snd (initialUKF (1/10) 4 []))[u_x (fst (initialUKF (1/10) 4 []))
                                       := [[p], [q], [0], [0], [0]]]
        @ [[[p], [q], [0], [0], [0]],
           [[43/30, 0, 2/3, 0, 0], [0, 9/10, 0, 0, 0], [2/3, 0, 14/15, 0, 0],
            [0, 0, 0, 21/10, 1], [0, 0, 0, 1, 11/10]]])"
  by (simp add: applyUKF_def ukf_bootstrap_def truthy_def time_step_def js_div_def atan2_def
        store_def put_def alloc_def Let_def initialUKF_consts initialUKF_heap initialUKF_weights_m
        initialUKF_weights_c ukf_cycle_stationary)

theorem applyUKF_reseeds_on_third_call:
  "applyUKF (fst (initialUKF (1/10) 4 [])) \<lparr>coord_x = 100, coord_y = 200\<rparr> 1000
       (snd (initialUKF (1/10) 4 []))
     = (Inr (\<lparr>coord_x = 100, coord_y = 200\<rparr>,
             (fst (initialUKF (1/10) 4 []))
               \<lparr>u_lastTimestamp := Some 1000,
                lastMeasurement := Some \<lparr>coord_x = 100, coord_y = 200\<rparr>\<rparr>),
        (snd (initialUKF (1/10) 4 []))
          [u_x (fst (initialUKF (1/10) 4 [])) := [[100], [200], [0], [0], [0]]])
   \<and> applyUKF ((fst (initialUKF (1/10) 4 []))
                 \<lparr>u_lastTimestamp := Some 1000,
                  lastMeasurement := Some \<lparr>coord_x = 100, coord_y = 200\<rparr>\<rparr>)
         \<lparr>coord_x = 100, coord_y = 200\<rparr> 1015
         ((snd (initialUKF (1/10) 4 []))
            [u_x (fst (initialUKF (1/10) 4 [])) := [[100], [200], [0], [0], [0]]])
     = (Inr (\<lparr>coord_x = 100, coord_y = 200\<rparr>,
             (fst (initialUKF (1/10) 4 []))
               \<lparr>u_x := 4, u_P := 5, u_lastTimestamp := Some 1015,
                lastMeasurement := Some \<lparr>coord_x = 100, coord_y = 200\<rparr>\<rparr>),
        (snd (initialUKF (1/10) 4 []))
          [u_x (fst (initialUKF (1/10) 4 [])) := [[100], [200], [0], [0], [0]]]
          @ [[[100], [200], [0], [0], [0]],
             [[43/30, 0, 2/3, 0, 0], [0, 9/10, 0, 0, 0], [2/3, 0, 14/15, 0, 0],
              [0, 0, 0, 21/10, 1], [0, 0, 0, 1, 11/10]]])
   \<and> snd (applyUKF
            ((fst (initialUKF (1/10) 4 []))
               \<lparr>u_x := 4, u_P := 5, u_lastTimestamp := Some 1015,
                lastMeasurement := Some \<lparr>coord_x = 100, coord_y = 200\<rparr>\<rparr>)
            \<lparr>coord_x = 102, coord_y = 200\<rparr> 1030
            ((snd (initialUKF (1/10) 4 []))
               [u_x (fst (initialUKF (1/10) 4 [])) := [[100], [200], [0], [0], [0]]]
               @ [[[100], [200], [0], [0], [0]],
                  [[43/30, 0, 2/3, 0, 0], [0, 9/10, 0, 0, 0], [2/3, 0, 14/15, 0, 0],
                   [0, 0, 0, 21/10, 1], [0, 0, 0, 1, 11/10]]])) ! 4
     = [[100], [200], [2], [0], [0]]"
proof -
  let ?m = "\<lparr>coord_x = 100, coord_y = 200\<rparr>"
  let ?f2 = "(fst (initialUKF (1/10) 4 []))
               \<lparr>u_x := 4, u_P := 5, u_lastTimestamp := Some 1015, lastMeasurement := Some ?m\<rparr>"
  let ?h2 = "(snd (initialUKF (1/10) 4 []))
               [u_x (fst (initialUKF (1/10) 4 [])) := [[100], [200], [0], [0], [0]]]
               @ [[[100], [200], [0], [0], [0]],
                  [[43/30, 0, 2/3, 0, 0], [0, 9/10, 0, 0, 0], [2/3, 0, 14/15, 0, 0],
                   [0, 0, 0, 21/10, 1], [0, 0, 0, 1, 11/10]]]"
  have 1: "applyUKF (fst (initialUKF (1/10) 4 [])) ?m 1000 (snd (initialUKF (1/10) 4 []))
     = (Inr (?m, (fst (initialUKF (1/10) 4 []))
               \<lparr>u_lastTimestamp := Some 1000, lastMeasurement := Some ?m\<rparr>),
        (snd (initialUKF (1/10) 4 []))
          [u_x (fst (initialUKF (1/10) 4 [])) := [[100], [200], [0], [0], [0]]])"
    unfolding applyUKF_first by simp
  note 2 = applyUKF_second_call_stationary[of 100 200]
  have a: "lastMeasurement ?f2 = Some ?m" by simp
  have b: "u_lastTimestamp ?f2 = Some 1015" by simp
  have c: "(1015::int) \<noteq> 0" and d: "(1030::int) \<noteq> 1015" by simp_all
  have ux: "u_x ?f2 = 4" by simp
  have x: "?h2 ! 4 = [[100], [200], [0], [0], [0]]"
    by (simp add: initialUKF_consts initialUKF_heap nth_append)
  have e: "u_x ?f2 < length ?h2" by (simp add: initialUKF_consts initialUKF_heap)
  have f: "3 < length (?h2 ! u_x ?f2)" "?h2 ! u_x ?f2 ! 2 \<noteq> []" "?h2 ! u_x ?f2 ! 3 \<noteq> []"
    "?h2 ! u_x ?f2 ! 2 ! 0 = 0"
    unfolding ux x by simp_all
  from applyUKF_reseeds_when_velocity_zero[OF a b c d e f, of "\<lparr>coord_x = 102, coord_y = 200\<rparr>"]
  have "snd (applyUKF ?f2 \<lparr>coord_x = 102, coord_y = 200\<rparr> 1030 ?h2) ! u_x ?f2 =
          (?h2 ! u_x ?f2)
            [2 := (?h2 ! u_x ?f2 ! 2)
                    [0 := sqrt ((coord_x \<lparr>coord_x = 102, coord_y = 200\<rparr> - coord_x ?m)
                                * (coord_x \<lparr>coord_x = 102, coord_y = 200\<rparr> - coord_x ?m)
                                + (coord_y \<lparr>coord_x = 102, coord_y = 200\<rparr> - coord_y ?m)
                                * (coord_y \<lparr>coord_x = 102, coord_y = 200\<rparr> - coord_y ?m))
                          / (real_of_int (1030 - 1015) / 15)],
             3 := (?h2 ! u_x ?f2 ! 3)
                    [0 := atan2 (coord_y \<lparr>coord_x = 102, coord_y = 200\<rparr> - coord_y ?m)
                                (coord_x \<lparr>coord_x = 102, coord_y = 200\<rparr> - coord_x ?m)]]"
    unfolding Let_def by blast
  then have 3: "snd (applyUKF ?f2 \<lparr>coord_x = 102, coord_y = 200\<rparr> 1030 ?h2) ! 4
                  = [[100], [200], [2], [0], [0]]"
    unfolding ux x by (simp add: atan2_def)
  from 1 2 3 show ?thesis by blast
qed

text \<open>
  Claim C10 (every call after the first with \<open>x[2][0] = 0\<close> seeds speed and heading
  before the sigma points are generated) against the code. The guard is
  \<^verbatim>\<open>lastTimestamp && x[2][0] === 0\<close>, and the number 0 is falsy: a first call at
  \<^verbatim>\<open>Date.now() = 0\<close> stores the timestamp 0, and the second call (here from (0,0) to
  (15,0) at time 15) then skips the seed and leaves the speed \<open>x[2][0]\<close> at 0, where
  the claim and the comment \<^verbatim>\<open>// Initialize velocity and heading on second run\<close> ask
  for \<open>|(15,0) - (0,0)| / dt = 15\<close>.
\<close>

theorem applyUKF_no_seed_at_timestamp_zero:
  "applyUKF (fst (initialUKF (1/10) 4 [])) \<lparr>coord_x = 0, coord_y = 0\<rparr> 0
       (snd (initialUKF (1/10) 4 []))
     = (Inr (\<lparr>coord_x = 0, coord_y = 0\<rparr>,
             (fst (initialUKF (1/10) 4 []))
               \<lparr>u_lastTimestamp := Some 0,
                lastMeasurement := Some \<lparr>coord_x = 0, coord_y = 0\<rparr>\<rparr>),
        snd (initialUKF (1/10) 4 []))
   \<and> snd (initialUKF (1/10) 4 []) ! u_x (fst (initialUKF (1/10) 4 [])) ! 2 ! 0 = 0
   \<and> snd (applyUKF
            ((fst (initialUKF (1/10) 4 []))
               \<lparr>u_lastTimestamp := Some 0,
                lastMeasurement := Some \<lparr>coord_x = 0, coord_y = 0\<rparr>\<rparr>)
            \<lparr>coord_x = 15, coord_y = 0\<rparr> 15 (snd (initialUKF (1/10) 4 [])))
       ! u_x (fst (initialUKF (1/10) 4 [])) ! 2 ! 0 = 0
   \<and> sqrt ((15 - 0) * (15 - 0) + (0 - 0) * (0 - 0)) / (real_of_int (15 - 0) / 15) = 15"
proof -
  have 1: "applyUKF (fst (initialUKF (1/10) 4 [])) \<lparr>coord_x = 0, coord_y = 0\<rparr> 0
       (snd (initialUKF (1/10) 4 []))
     = (Inr (\<lparr>coord_x = 0, coord_y = 0\<rparr>,
             (fst (initialUKF (1/10) 4 []))
               \<lparr>u_lastTimestamp := Some 0,
                lastMeasurement := Some \<lparr>coord_x = 0, coord_y = 0\<rparr>\<rparr>),
        snd (initialUKF (1/10) 4 []))"
    unfolding applyUKF_first by (simp add: initialUKF_consts initialUKF_heap)
  have 2: "snd (initialUKF (1/10) 4 []) ! u_x (fst (initialUKF (1/10) 4 [])) ! 2 ! 0 = 0"
    by (simp add: initialUKF_consts initialUKF_heap)
  have "snd (applyUKF
            ((fst (initialUKF (1/10) 4 []))
               \<lparr>u_lastTimestamp := Some 0,
                lastMeasurement := Some \<lparr>coord_x = 0, coord_y = 0\<rparr>\<rparr>)
            \<lparr>coord_x = 15, coord_y = 0\<rparr> 15 (snd (initialUKF (1/10) 4 [])))
       ! u_x ((fst (initialUKF (1/10) 4 []))
               \<lparr>u_lastTimestamp := Some 0,
                lastMeasurement := Some \<lparr>coord_x = 0, coord_y = 0\<rparr>\<rparr>)
        = snd (initialUKF (1/10) 4 [])
            ! u_x ((fst (initialUKF (1/10) 4 []))
               \<lparr>u_lastTimestamp := Some 0,
                lastMeasurement := Some \<lparr>coord_x = 0, coord_y = 0\<rparr>\<rparr>)"
    by (rule applyUKF_no_seed_when_falsy[where lastM = "\<lparr>coord_x = 0, coord_y = 0\<rparr>"])
       (simp_all add: truthy_def initialUKF_consts initialUKF_heap)
  then have 3: "snd (applyUKF
            ((fst (initialUKF (1/10) 4 []))
               \<lparr>u_lastTimestamp := Some 0,
                lastMeasurement := Some \<lparr>coord_x = 0, coord_y = 0\<rparr>\<rparr>)
            \<lparr>coord_x = 15, coord_y = 0\<rparr> 15 (snd (initialUKF (1/10) 4 [])))
       ! u_x (fst (initialUKF (1/10) 4 [])) ! 2 ! 0 = 0"
    by (simp add: initialUKF_consts initialUKF_heap)
  have 4: "sqrt ((15 - 0) * (15 - 0) + (0 - 0) * (0 - 0)) / (real_of_int (15 - 0) / 15) = (15::real)"
    by simp
  from 1 2 3 4 show ?thesis by blast
qed

section \<open>Aliasing of the input state\<close>

text \<open>
  Claim C1 (every \<open>apply\<close> leaves the caller's old state unchanged) against the code.
  The first \<open>applyUKF\<close> call on a new state overwrites the matrix \<open>x\<close> of that state:
  it was all zeros before the call and holds the measurement after it. A second
  \<open>applyKalmanFilter\<close> call, 30 ms after the first, overwrites two entries of the
  matrix \<open>A\<close> of the state it was given (and of the initial state, which shares it).
\<close>

theorem apply_mutates_input_state:
  "snd (initialUKF (1/10) 4 []) ! u_x (fst (initialUKF (1/10) 4 []))
     = [[0], [0], [0], [0], [0]]
   \<and> snd (applyUKF (fst (initialUKF (1/10) 4 [])) \<lparr>coord_x = 100, coord_y = 200\<rparr> 1000
            (snd (initialUKF (1/10) 4 [])))
       ! u_x (fst (initialUKF (1/10) 4 []))
     = [[100], [200], [0], [0], [0]]
   \<and> fst (applyKalmanFilter (fst (initialKalmanFilter (1/10) 4 []))
            \<lparr>coord_x = 100, coord_y = 200\<rparr> 1000 (snd (initialKalmanFilter (1/10) 4 [])))
     = Inr (\<lparr>coord_x = 100, coord_y = 200\<rparr>,
            \<lparr>k_x = 6, k_P = 7, k_A = 2, k_H = 3, k_Q = 4, k_R = 5, firstRun = False,
             k_lastTimestamp = Some 1000\<rparr>)
   \<and> snd (applyKalmanFilter (fst (initialKalmanFilter (1/10) 4 []))
            \<lparr>coord_x = 100, coord_y = 200\<rparr> 1000 (snd (initialKalmanFilter (1/10) 4 []))) ! 2
     = [[1, 0, 1, 0], [0, 1, 0, 1], [0, 0, 1, 0], [0, 0, 0, 1]]
   \<and> snd (applyKalmanFilter
            \<lparr>k_x = 6, k_P = 7, k_A = 2, k_H = 3, k_Q = 4, k_R = 5, firstRun = False,
             k_lastTimestamp = Some 1000\<rparr>
            \<lparr>coord_x = 100, coord_y = 200\<rparr> 1030
            (snd (applyKalmanFilter (fst (initialKalmanFilter (1/10) 4 []))
                    \<lparr>coord_x = 100, coord_y = 200\<rparr> 1000
                    (snd (initialKalmanFilter (1/10) 4 []))))) ! 2
     = [[1, 0, 2, 0], [0, 1, 0, 2], [0, 0, 1, 0], [0, 0, 0, 1]]"
proof -
  have nz: "2 + (1/10) + (4::real) \<noteq> 0" by simp
  note first = applyKalmanFilter_first[OF nz, of "[]" "\<lparr>coord_x = 100, coord_y = 200\<rparr>" 1000]
  have 1: "snd (initialUKF (1/10) 4 []) ! u_x (fst (initialUKF (1/10) 4 []))
     = [[0], [0], [0], [0], [0]]"
    by (simp add: initialUKF_consts initialUKF_heap)
  have 2: "snd (applyUKF (fst (initialUKF (1/10) 4 [])) \<lparr>coord_x = 100, coord_y = 200\<rparr> 1000
            (snd (initialUKF (1/10) 4 [])))
       ! u_x (fst (initialUKF (1/10) 4 []))
     = [[100], [200], [0], [0], [0]]"
    unfolding applyUKF_first by (simp add: initialUKF_consts initialUKF_heap)
  have 3: "fst (applyKalmanFilter (fst (initialKalmanFilter (1/10) 4 []))
            \<lparr>coord_x = 100, coord_y = 200\<rparr> 1000 (snd (initialKalmanFilter (1/10) 4 [])))
     = Inr (\<lparr>coord_x = 100, coord_y = 200\<rparr>,
            \<lparr>k_x = 6, k_P = 7, k_A = 2, k_H = 3, k_Q = 4, k_R = 5, firstRun = False,
             k_lastTimestamp = Some 1000\<rparr>)"
    unfolding first by (simp add: initialKalmanFilter_eval)
  have 4: "snd (applyKalmanFilter (fst (initialKalmanFilter (1/10) 4 []))
            \<lparr>coord_x = 100, coord_y = 200\<rparr> 1000 (snd (initialKalmanFilter (1/10) 4 []))) ! 2
     = [[1, 0, 1, 0], [0, 1, 0, 1], [0, 0, 1, 0], [0, 0, 0, 1]]"
    unfolding first by (simp add: initialKalmanFilter_eval)
  have 5: "snd (applyKalmanFilter
            \<lparr>k_x = 6, k_P = 7, k_A = 2, k_H = 3, k_Q = 4, k_R = 5, firstRun = False,
             k_lastTimestamp = Some 1000\<rparr>
            \<lparr>coord_x = 100, coord_y = 200\<rparr> 1030
            (snd (applyKalmanFilter (fst (initialKalmanFilter (1/10) 4 []))
                    \<lparr>coord_x = 100, coord_y = 200\<rparr> 1000
                    (snd (initialKalmanFilter (1/10) 4 []))))) ! 2
     = [[1, 0, 2, 0], [0, 1, 0, 2], [0, 0, 1, 0], [0, 0, 0, 1]]"
    using applyKalmanFilter_A_after[of
            "\<lparr>k_x = 6, k_P = 7, k_A = 2, k_H = 3, k_Q = 4, k_R = 5, firstRun = False,
              k_lastTimestamp = Some 1000\<rparr>"
            "snd (applyKalmanFilter (fst (initialKalmanFilter (1/10) 4 []))
                    \<lparr>coord_x = 100, coord_y = 200\<rparr> 1000
                    (snd (initialKalmanFilter (1/10) 4 [])))"
            "\<lparr>coord_x = 100, coord_y = 200\<rparr>" 1030]
    unfolding first by (simp add: initialKalmanFilter_eval time_step_def)
  from 1 2 3 4 5 show ?thesis by blast
qed


end
